theory Spec2Isabelle
  imports Complex_Main
begin

section \<open>JavaScript numbers\<close>

text \<open>
  A JavaScript number is an IEEE 754 binary64 value. The finite ones are real numbers, and an
  arithmetic operation of the language yields the exact result rounded to the nearest double,
  ties to the even significand. \<open>binary64 x\<close> is that rounding of the real \<open>x\<close>: the
  spacing of the doubles around \<open>x\<close> is \<open>2 ^ (\<lfloor>log 2 \<bar>x\<bar>\<rfloor> - 52)\<close>, and \<open>2 ^ - 1074\<close>
  among the subnormal ones. Results beyond the largest double (the infinities) and NaN are
  outside the model.
\<close>

definition pow2 :: "int \<Rightarrow> real" where
  "pow2 e = (if 0 \<le> e then 2 ^ nat e else 1 / 2 ^ nat (- e))"

definition roundHalfEven :: "real \<Rightarrow> int" where
  "roundHalfEven x =
     (let f = \<lfloor>x\<rfloor>; d = x - of_int f
      in if d < 1 / 2 then f else if 1 / 2 < d then f + 1 else if even f then f else f + 1)"

definition binary64 :: "real \<Rightarrow> real" where
  "binary64 x =
     (if x = 0 then 0
      else (let e = max (\<lfloor>log 2 \<bar>x\<bar>\<rfloor> - 52) (- 1074)
            in of_int (roundHalfEven (x / pow2 e)) * pow2 e))"

section \<open>Inventory repository (src/storage/repos/inventory.repo.ts)\<close>

text \<open>
  The table \<^verbatim>\<open>inventory_items\<close> of migrations.ts has the columns
  \<^verbatim>\<open>character_id, item_id, quantity, equipped, slot\<close> and the primary key
  \<^verbatim>\<open>(character_id, item_id)\<close>. A table with a primary key is a partial map from the key
  to the remaining columns. \<^verbatim>\<open>equipped\<close> is the SQLite boolean 0/1, \<^verbatim>\<open>slot\<close> is
  nullable (\<open>None\<close> is NULL). \<^verbatim>\<open>quantity\<close> is the number that the column stores (a 64-bit
  integer or a double, both real numbers); the repository reads it back as a JavaScript
  number, that is as \<open>binary64\<close> of the stored number.
\<close>

record InventoryRow =
  quantity :: real
  equipped :: bool
  slot :: "string option"

type_synonym inventory_items = "string \<times> string \<Rightarrow> InventoryRow option"

text \<open>
  What the statements of the repository take from the database besides the table. The table
  declares \<^verbatim>\<open>FOREIGN KEY (character_id) REFERENCES characters(id)\<close> and
  \<^verbatim>\<open>FOREIGN KEY (item_id) REFERENCES items(id)\<close> (migrations.ts): \<open>character_ids\<close> and
  \<open>item_ids\<close> are the keys of the two parent tables, which the repository never writes (a
  database that does not enforce foreign keys is one where both are \<open>UNIV\<close>).
  \<open>sql_add\<close> and \<open>sql_sub\<close> are the engine's \<^verbatim>\<open>quantity + excluded.quantity\<close> and
  \<^verbatim>\<open>quantity - ?\<close> on a stored number and a bound JavaScript number; the engine is not part
  of the repository, so its arithmetic is taken as given. On integers that a double holds
  exactly they are the sum and the difference.
\<close>

record sqlite =
  character_ids :: "string set"
  item_ids :: "string set"
  sql_add :: "real \<Rightarrow> real \<Rightarrow> real"
  sql_sub :: "real \<Rightarrow> real \<Rightarrow> real"

text \<open>A statement that violates a foreign key throws; the exception is a value.\<close>

datatype storage_error = ForeignKeyViolation

text \<open>
  \<^verbatim>\<open>INSERT INTO inventory_items (character_id, item_id, quantity) VALUES (?, ?, ?)
  ON CONFLICT(character_id, item_id) DO UPDATE SET quantity = quantity + excluded.quantity\<close>:
  on a conflict the existing row is updated and nothing is inserted. Otherwise the new row
  takes the column defaults \<^verbatim>\<open>equipped = 0\<close>, \<^verbatim>\<open>slot = NULL\<close>, and the statement fails
  when the character or the item of the new row is not in its parent table.
\<close>

definition insertOrIncrement ::
  "sqlite \<Rightarrow> inventory_items \<Rightarrow> string \<Rightarrow> string \<Rightarrow> real \<Rightarrow> storage_error + inventory_items" where
  "insertOrIncrement env db characterId itemId q =
     (case db (characterId, itemId) of
        Some r \<Rightarrow> Inr (db((characterId, itemId) \<mapsto> r\<lparr>quantity := sql_add env (quantity r) q\<rparr>))
      | None \<Rightarrow>
          if characterId \<in> character_ids env \<and> itemId \<in> item_ids env
          then Inr (db((characterId, itemId) \<mapsto> \<lparr>quantity = q, equipped = False, slot = None\<rparr>))
          else Inl ForeignKeyViolation)"

text \<open>
  addItem runs the statement and returns nothing; when the statement throws, the exception
  leaves addItem and the table is as before.
\<close>

definition addItem ::
  "sqlite \<Rightarrow> inventory_items \<Rightarrow> string \<Rightarrow> string \<Rightarrow> real \<Rightarrow> (storage_error + unit) \<times> inventory_items" where
  "addItem env db characterId itemId q =
     (case insertOrIncrement env db characterId itemId q of
        Inl e \<Rightarrow> (Inl e, db)
      | Inr db' \<Rightarrow> (Inr (), db'))"

text \<open>\<^verbatim>\<open>DELETE FROM inventory_items WHERE character_id = ? AND item_id = ?\<close>\<close>

definition deleteRow :: "inventory_items \<Rightarrow> string \<Rightarrow> string \<Rightarrow> inventory_items" where
  "deleteRow db characterId itemId = db((characterId, itemId) := None)"

text \<open>\<^verbatim>\<open>UPDATE inventory_items SET quantity = quantity - ? WHERE character_id = ? AND item_id = ?\<close>\<close>

definition decrementRow :: "sqlite \<Rightarrow> inventory_items \<Rightarrow> real \<Rightarrow> string \<Rightarrow> string \<Rightarrow> inventory_items" where
  "decrementRow env db q characterId itemId =
     (case db (characterId, itemId) of
        None \<Rightarrow> db
      | Some r \<Rightarrow> db((characterId, itemId) \<mapsto> r\<lparr>quantity := sql_sub env (quantity r) q\<rparr>))"

text \<open>
  removeItem compares \<^verbatim>\<open>row.quantity\<close>, the stored number read back as a double, with the
  argument: \<^verbatim>\<open>row.quantity < quantity\<close> and \<^verbatim>\<open>row.quantity === quantity\<close>.
\<close>

definition removeItem :: "sqlite \<Rightarrow> inventory_items \<Rightarrow> string \<Rightarrow> string \<Rightarrow> real \<Rightarrow> bool \<times> inventory_items" where
  "removeItem env db characterId itemId q =
     (case db (characterId, itemId) of
        None \<Rightarrow> (False, db)
      | Some row \<Rightarrow>
          if binary64 (quantity row) < q then (False, db)
          else if binary64 (quantity row) = q then (True, deleteRow db characterId itemId)
          else (True, decrementRow env db q characterId itemId))"

text \<open>
  \<^verbatim>\<open>UPDATE inventory_items SET equipped = 0, slot = NULL WHERE character_id = ? AND slot = ?\<close>:
  every row of the character whose slot column equals the given slot; a NULL slot matches
  nothing.
\<close>

definition unequipSlot :: "inventory_items \<Rightarrow> string \<Rightarrow> string \<Rightarrow> inventory_items" where
  "unequipSlot db characterId s =
     (\<lambda>k. case db k of
            None \<Rightarrow> None
          | Some r \<Rightarrow>
              if fst k = characterId \<and> slot r = Some s
              then Some (r\<lparr>equipped := False, slot := None\<rparr>)
              else Some r)"

text \<open>\<^verbatim>\<open>UPDATE inventory_items SET equipped = 1, slot = ? WHERE character_id = ? AND item_id = ?\<close>\<close>

definition equipRow :: "inventory_items \<Rightarrow> string \<Rightarrow> string \<Rightarrow> string \<Rightarrow> inventory_items" where
  "equipRow db s characterId itemId =
     (case db (characterId, itemId) of
        None \<Rightarrow> db
      | Some r \<Rightarrow> db((characterId, itemId) \<mapsto> r\<lparr>equipped := True, slot := Some s\<rparr>))"

definition equipItem :: "inventory_items \<Rightarrow> string \<Rightarrow> string \<Rightarrow> string \<Rightarrow> inventory_items" where
  "equipItem db characterId itemId s = equipRow (unequipSlot db characterId s) s characterId itemId"

text \<open>\<^verbatim>\<open>UPDATE inventory_items SET equipped = 0, slot = NULL WHERE character_id = ? AND item_id = ?\<close>\<close>

definition unequipItem :: "inventory_items \<Rightarrow> string \<Rightarrow> string \<Rightarrow> inventory_items" where
  "unequipItem db characterId itemId =
     (case db (characterId, itemId) of
        None \<Rightarrow> db
      | Some r \<Rightarrow> db((characterId, itemId) \<mapsto> r\<lparr>equipped := False, slot := None\<rparr>))"

text \<open>
  \<^verbatim>\<open>this.db.transaction(() => { ... })\<close> followed by the call of the returned function: the
  closure's statements run after BEGIN. When the closure returns, the transaction commits and
  the store is the one the closure left. When a statement of the closure throws, the
  transaction is rolled back, so the store is the one before the closure, writes of earlier
  statements of the closure included, and the exception is thrown on to the caller.
\<close>

definition transaction :: "('db \<Rightarrow> 'e + 'db) \<Rightarrow> 'db \<Rightarrow> ('e + unit) \<times> 'db" where
  "transaction body db =
     (case body db of
        Inl e \<Rightarrow> (Inl e, db)
      | Inr db' \<Rightarrow> (Inr (), db'))"

text \<open>
  The first statement of the transfer closure: delete or decrement the source row.
  \<^verbatim>\<open>row\<close> is the row that transferItem read before the transaction.
\<close>

definition removeFromSource ::
  "sqlite \<Rightarrow> InventoryRow \<Rightarrow> string \<Rightarrow> string \<Rightarrow> real \<Rightarrow> inventory_items \<Rightarrow> inventory_items" where
  "removeFromSource env row fromCharacterId itemId q db =
     (if binary64 (quantity row) = q then deleteRow db fromCharacterId itemId
      else decrementRow env db q fromCharacterId itemId)"

text \<open>
  transferItem never looks the recipient up: a recipient that is no character is found by the
  foreign key of the INSERT only, inside the transaction. The result is the exception or the
  boolean that the function returns.
\<close>

definition transferItem ::
  "sqlite \<Rightarrow> inventory_items \<Rightarrow> string \<Rightarrow> string \<Rightarrow> string \<Rightarrow> real
     \<Rightarrow> (storage_error + bool) \<times> inventory_items" where
  "transferItem env db fromCharacterId toCharacterId itemId q =
     (case db (fromCharacterId, itemId) of
        None \<Rightarrow> (Inr False, db)
      | Some row \<Rightarrow>
          if binary64 (quantity row) < q then (Inr False, db)
          else if equipped row then (Inr False, db)
          else (case transaction
                       (\<lambda>d. insertOrIncrement env (removeFromSource env row fromCharacterId itemId q d)
                              toCharacterId itemId q)
                       db of
                  (Inl e, db') \<Rightarrow> (Inl e, db')
                | (Inr u, db') \<Rightarrow> (Inr True, db')))"

text \<open>The operations a caller can issue against the equipment columns, and a run of them.\<close>

datatype equip_op = Equip string string string | Unequip string string

fun apply_equip_op :: "inventory_items \<Rightarrow> equip_op \<Rightarrow> inventory_items" where
  "apply_equip_op db (Equip c i s) = equipItem db c i s"
| "apply_equip_op db (Unequip c i) = unequipItem db c i"

definition run_equip_ops :: "inventory_items \<Rightarrow> equip_op list \<Rightarrow> inventory_items" where
  "run_equip_ops db ops = foldl apply_equip_op db ops"

text \<open>
  Every operation of the repository that writes the table, and a run of them: the tables that
  the repository can reach are the runs from the empty table. The table after an operation is
  the second component of its result, also when the operation throws.
\<close>

datatype repo_op =
    AddItem string string real
  | RemoveItem string string real
  | TransferItem string string string real
  | EquipItem string string string
  | UnequipItem string string

fun apply_repo_op :: "sqlite \<Rightarrow> inventory_items \<Rightarrow> repo_op \<Rightarrow> inventory_items" where
  "apply_repo_op env db (AddItem c i q) = snd (addItem env db c i q)"
| "apply_repo_op env db (RemoveItem c i q) = snd (removeItem env db c i q)"
| "apply_repo_op env db (TransferItem c c' i q) = snd (transferItem env db c c' i q)"
| "apply_repo_op env db (EquipItem c i s) = equipItem db c i s"
| "apply_repo_op env db (UnequipItem c i) = unequipItem db c i"

definition run_repo_ops :: "sqlite \<Rightarrow> inventory_items \<Rightarrow> repo_op list \<Rightarrow> inventory_items" where
  "run_repo_ops env db ops = foldl (apply_repo_op env) db ops"

text \<open>
  The invariant of the data model: an equipped row has a slot, and two equipped rows of one
  character never share a slot.
\<close>

definition equipped_has_slot :: "inventory_items \<Rightarrow> bool" where
  "equipped_has_slot db \<longleftrightarrow> (\<forall>k r. db k = Some r \<and> equipped r \<longrightarrow> slot r \<noteq> None)"

definition one_per_slot :: "inventory_items \<Rightarrow> bool" where
  "one_per_slot db \<longleftrightarrow>
     (\<forall>c i j r r'. db (c, i) = Some r \<and> db (c, j) = Some r' \<and> equipped r \<and> equipped r'
        \<and> slot r = slot r' \<longrightarrow> i = j)"

definition equip_inv :: "inventory_items \<Rightarrow> bool" where
  "equip_inv db \<longleftrightarrow> equipped_has_slot db \<and> one_per_slot db"

section \<open>Theft and fences (src/server/consolidated/theft-manage.ts)\<close>

datatype HeatLevel = burning | hot | warm | cool | cold

record TheftRecord =
  itemId :: string
  stolenFrom :: string
  stolenBy :: string
  stolenLocation :: "string option"
  witnesses :: "string list"
  heatLevel :: HeatLevel
  reportedToGuards :: bool
  bounty :: int

record Fence =
  npcId :: string
  factionId :: "string option"
  buyRate :: real
  maxHeatLevel :: HeatLevel
  dailyHeatCapacity :: int
  dailyHeatUsed :: int
  specializations :: "string list"
  cooldownDays :: int

text \<open>
  The tables \<^verbatim>\<open>theft_records\<close> (keyed by item id) and \<^verbatim>\<open>fences\<close> (keyed by NPC id).
  The theft records are kept as the list of rows, so that the rows of one victim can be
  enumerated.
\<close>

record theft_store =
  theft_records :: "TheftRecord list"
  fences :: "string \<Rightarrow> Fence option"

text \<open>
  Modelled from the spec: \<^verbatim>\<open>TheftRepository.recordTheft\<close> (src/storage/repos/theft.repo.ts is
  not among the sources). Section 4.4: "Creates a TheftRecord with initial heatLevel = burning and
  the supplied witnesses"; section 3: a record is keyed by item id, with
  \<^verbatim>\<open>reportedToGuards\<close> and \<^verbatim>\<open>bounty\<close> raised only by a later report. The row of the item
  replaces an earlier row of the same item.
\<close>

definition recordTheft ::
  "theft_store \<Rightarrow> string \<Rightarrow> string \<Rightarrow> string \<Rightarrow> string option \<Rightarrow> string list
     \<Rightarrow> TheftRecord \<times> theft_store" where
  "recordTheft db item victim thief location wits =
     (let record = \<lparr>itemId = item, stolenFrom = victim, stolenBy = thief,
                     stolenLocation = location, witnesses = wits, heatLevel = burning,
                     reportedToGuards = False, bounty = 0\<rparr>
      in (record,
          db\<lparr>theft_records := filter (\<lambda>r. itemId r \<noteq> item) (theft_records db) @ [record]\<rparr>))"

text \<open>
  Modelled from the spec: \<^verbatim>\<open>TheftRepository.getTheftRecord\<close>, the "pure lookup by item id" of
  section 4.4.
\<close>

definition getTheftRecord :: "theft_store \<Rightarrow> string \<Rightarrow> TheftRecord option" where
  "getTheftRecord db item = find (\<lambda>r. itemId r = item) (theft_records db)"

text \<open>
  Modelled from the spec: \<^verbatim>\<open>TheftRepository.getItemsStolenFrom\<close>, the theft-victim records of
  an NPC (section 4.4, register fence): the rows whose \<^verbatim>\<open>stolenFrom\<close> is the NPC.
\<close>

definition getItemsStolenFrom :: "theft_store \<Rightarrow> string \<Rightarrow> TheftRecord list" where
  "getItemsStolenFrom db npc = filter (\<lambda>r. stolenFrom r = npc) (theft_records db)"

text \<open>
  Modelled from the spec: \<^verbatim>\<open>TheftRepository.registerFence\<close> stores the fence under its NPC id
  (section 3, Fence), with no daily heat used yet.
\<close>

definition registerFence ::
  "theft_store \<Rightarrow> string \<Rightarrow> string option \<Rightarrow> real \<Rightarrow> HeatLevel \<Rightarrow> int \<Rightarrow> string list \<Rightarrow> int
     \<Rightarrow> Fence \<times> theft_store" where
  "registerFence db npc faction rate maxHeat capacity specs cooldown =
     (let fence = \<lparr>npcId = npc, factionId = faction, buyRate = rate, maxHeatLevel = maxHeat,
                    dailyHeatCapacity = capacity, dailyHeatUsed = 0, specializations = specs,
                    cooldownDays = cooldown\<rparr>
      in (fence, db\<lparr>fences := (fences db)(npc \<mapsto> fence)\<rparr>))"

text \<open>
  The handlers return an object, \<^verbatim>\<open>{error: true, message}\<close> or \<^verbatim>\<open>{success: true, ...}\<close>.
  The two error objects of the handlers below:
  \<^item> \<open>SelfTheft\<close>: 'A character cannot steal from themselves';
  \<^item> \<open>VictimAsFence npc n\<close>: 'Cannot register a theft victim as a fence', with the reason
    'npc has had n item(s) stolen'.
\<close>

datatype theft_error = SelfTheft | VictimAsFence string nat

record StealSuccess =
  steal_record :: TheftRecord
  steal_heatLevel :: HeatLevel
  steal_witnesses :: nat

text \<open>\<^verbatim>\<open>args.witnesses ?? []\<close> and \<^verbatim>\<open>args.locationId ?? null\<close>: both fields are optional.\<close>

definition handleSteal ::
  "theft_store \<Rightarrow> string \<Rightarrow> string \<Rightarrow> string \<Rightarrow> string list option \<Rightarrow> string option
     \<Rightarrow> (theft_error + StealSuccess) \<times> theft_store" where
  "handleSteal db thiefId victimId item wits locationId =
     (if thiefId = victimId then (Inl SelfTheft, db)
      else
        (let (record, db') =
               recordTheft db item victimId thiefId locationId
                 (case wits of None \<Rightarrow> [] | Some ws \<Rightarrow> ws)
         in (Inr \<lparr>steal_record = record, steal_heatLevel = heatLevel record,
                  steal_witnesses = length (witnesses record)\<rparr>, db')))"

text \<open>
  \<^verbatim>\<open>RegisterFenceSchema\<close> has filled in the defaults (buyRate 0.4, maxHeatLevel hot,
  dailyHeatCapacity 100, cooldownDays 7); \<^verbatim>\<open>factionId\<close> and \<^verbatim>\<open>specializations\<close> stay
  optional.
\<close>

definition handleRegisterFence ::
  "theft_store \<Rightarrow> string \<Rightarrow> string option \<Rightarrow> real \<Rightarrow> HeatLevel \<Rightarrow> int \<Rightarrow> string list option \<Rightarrow> int
     \<Rightarrow> (theft_error + Fence) \<times> theft_store" where
  "handleRegisterFence db npc faction rate maxHeat capacity specs cooldown =
     (let stolenFromVictim = getItemsStolenFrom db npc
      in if length stolenFromVictim > 0
         then (Inl (VictimAsFence npc (length stolenFromVictim)), db)
         else
           (let (fence, db') =
                  registerFence db npc faction rate maxHeat capacity
                    (case specs of None \<Rightarrow> [] | Some ss \<Rightarrow> ss) cooldown
            in (Inr fence, db')))"

datatype RecognizedBy = original_owner | witness | suspicion

datatype Reaction = hostile | suspicious

record RecognizeResult =
  recognized :: bool
  isStolen :: bool
  recognizedBy :: "RecognizedBy option"
  reaction :: "Reaction option"
  roll_floor :: "int option"
  threshold_floor :: "int option"

text \<open>
  \<^verbatim>\<open>HEAT_VALUES\<close> (src/schema/theft.ts is not among the sources) is the parameter \<open>heat\<close>;
  \<^verbatim>\<open>Math.random() * 100\<close> is the parameter \<open>roll\<close>, a double of the interval from 0 to
  100 (100 excluded). \<^verbatim>\<open>Math.min(100, heatValue + record.bounty / 10)\<close> is computed in
  doubles: the bounty is read as a double, the quotient is rounded, then the sum is rounded;
  the minimum and the comparison \<^verbatim>\<open>roll < recognitionChance\<close> are exact.
\<close>

definition recognitionChance :: "(HeatLevel \<Rightarrow> real) \<Rightarrow> TheftRecord \<Rightarrow> real" where
  "recognitionChance heat record =
     min 100 (binary64 (heat (heatLevel record) + binary64 (binary64 (real_of_int (bounty record)) / 10)))"

definition handleRecognize ::
  "(HeatLevel \<Rightarrow> real) \<Rightarrow> real \<Rightarrow> theft_store \<Rightarrow> string \<Rightarrow> string \<Rightarrow> RecognizeResult" where
  "handleRecognize heat roll db npc item =
     (case getTheftRecord db item of
        None \<Rightarrow>
          \<lparr>recognized = False, isStolen = False, recognizedBy = None, reaction = None,
           roll_floor = None, threshold_floor = None\<rparr>
      | Some record \<Rightarrow>
          if npc = stolenFrom record then
            \<lparr>recognized = True, isStolen = True, recognizedBy = Some original_owner,
             reaction = Some hostile, roll_floor = None, threshold_floor = None\<rparr>
          else if npc \<in> set (witnesses record) then
            \<lparr>recognized = True, isStolen = True, recognizedBy = Some witness,
             reaction = Some suspicious, roll_floor = None, threshold_floor = None\<rparr>
          else if roll < recognitionChance heat record then
            \<lparr>recognized = True, isStolen = True, recognizedBy = Some suspicion,
             reaction = Some suspicious, roll_floor = Some \<lfloor>roll\<rfloor>,
             threshold_floor = Some \<lfloor>recognitionChance heat record\<rfloor>\<rparr>
          else
            \<lparr>recognized = False, isStolen = True, recognizedBy = None, reaction = None,
             roll_floor = Some \<lfloor>roll\<rfloor>,
             threshold_floor = Some \<lfloor>recognitionChance heat record\<rfloor>\<rparr>)"

text \<open>
  Modelled from the spec: the values of \<^verbatim>\<open>HEAT_VALUES\<close> that section 4.4 gives (burning 80,
  hot 60, warm 40, cool 20, cold 5), for evaluating the handler on an example.
\<close>

fun HEAT_VALUES :: "HeatLevel \<Rightarrow> real" where
  "HEAT_VALUES burning = 80"
| "HEAT_VALUES hot = 60"
| "HEAT_VALUES warm = 40"
| "HEAT_VALUES cool = 20"
| "HEAT_VALUES cold = 5"

text \<open>The invariant of section 8: no NPC is at once a fence and the victim of a recorded theft.\<close>

definition no_fence_is_victim :: "theft_store \<Rightarrow> bool" where
  "no_fence_is_victim db \<longleftrightarrow> (\<forall>r \<in> set (theft_records db). fences db (stolenFrom r) = None)"

section \<open>Combat tools (src/server/combat-tools.ts)\<close>

text \<open>
  Several source objects have fields called \<^verbatim>\<open>id\<close>, \<^verbatim>\<open>name\<close> and \<^verbatim>\<open>hp\<close>; the fields of
  a combat participant carry the prefix \<open>p_\<close>, those of a sync result the prefix \<open>sr_\<close>.
  The field \<^verbatim>\<open>round\<close> of the combat state is \<open>roundNumber\<close>.
\<close>

record Character =
  name :: string
  stats :: "string \<Rightarrow> int option"
  hp :: int
  maxHp :: int
  level :: int
  knownSpells :: "string list option"

record CombatParticipant =
  p_id :: string
  p_name :: string
  initiativeBonus :: int
  initiative :: int
  isEnemy :: bool
  p_hp :: int
  p_maxHp :: int

record CombatState =
  participants :: "CombatParticipant list"
  turnOrder :: "string list"
  currentTurnIndex :: nat
  roundNumber :: nat

text \<open>
  Modelled from the spec: the class \<^verbatim>\<open>CombatEngine\<close> (src/engine/combat/engine.ts is not
  among the sources), as far as the handlers below use it. Section 4.3, Restoration: an engine
  is built for a seed and resumes from a saved state; \<^verbatim>\<open>getState()\<close> gives that state, or
  null before an encounter is started or loaded.
\<close>

record CombatEngine =
  seed :: string
  engineState :: "CombatState option"

text \<open>Modelled from the spec: \<^verbatim>\<open>new CombatEngine(seed)\<close>, an engine with no encounter yet.\<close>

definition newCombatEngine :: "string \<Rightarrow> CombatEngine" where
  "newCombatEngine s = \<lparr>seed = s, engineState = None\<rparr>"

text \<open>
  Modelled from the spec: \<^verbatim>\<open>CombatEngine.loadState\<close>, which resumes from the saved state
  without replaying dice (section 4.3, Restoration).
\<close>

definition loadState :: "CombatEngine \<Rightarrow> CombatState \<Rightarrow> CombatEngine" where
  "loadState engine st = engine\<lparr>engineState := Some st\<rparr>"

text \<open>Modelled from the spec: \<^verbatim>\<open>CombatEngine.getState\<close>, the current state or null.\<close>

definition getState :: "CombatEngine \<Rightarrow> CombatState option" where
  "getState engine = engineState engine"

text \<open>
  Modelled from the spec: what the handlers read and write. The combat manager
  (src/server/state/combat-manager.ts) holds the engines in memory under the key
  \<^verbatim>\<open>sessionId:encounterId\<close> (section 3, Ownership); the table of characters and the persisted
  encounter states are stores keyed by the entity's id (section 4.8), so that
  \<^verbatim>\<open>EncounterRepository.loadState\<close> is a lookup in \<open>encounters\<close> and \<^verbatim>\<open>saveState\<close> an update
  of it. These files are not among the sources.
\<close>

record world =
  manager :: "string \<Rightarrow> CombatEngine option"
  characters :: "string \<Rightarrow> Character option"
  encounters :: "string \<Rightarrow> CombatState option"

text \<open>
  Modelled from the spec: \<^verbatim>\<open>CharacterRepository.findById\<close> (section 4.8), the character of
  that id or null.
\<close>

definition findById :: "(string \<Rightarrow> Character option) \<Rightarrow> string \<Rightarrow> Character option" where
  "findById chars cid = chars cid"

text \<open>
  Modelled from the spec: \<^verbatim>\<open>CharacterRepository.update(id, { hp })\<close> (section 4.8), which
  writes the field \<^verbatim>\<open>hp\<close> of the stored character and leaves its other fields.
\<close>

definition updateHp :: "(string \<Rightarrow> Character option) \<Rightarrow> string \<Rightarrow> int \<Rightarrow> (string \<Rightarrow> Character option)" where
  "updateHp chars cid h =
     (case chars cid of None \<Rightarrow> chars | Some c \<Rightarrow> chars(cid \<mapsto> c\<lparr>hp := h\<rparr>))"

definition namespacedId :: "string \<Rightarrow> string \<Rightarrow> string" where
  "namespacedId sessionId encounterId = sessionId @ '':'' @ encounterId"

record SyncResult =
  sr_id :: string
  sr_name :: string
  sr_hp :: int
  synced :: bool

text \<open>The loop \<^verbatim>\<open>for (const participant of finalState.participants)\<close> of handleEndEncounter.\<close>

fun syncParticipants ::
  "CombatParticipant list \<Rightarrow> (string \<Rightarrow> Character option)
     \<Rightarrow> SyncResult list \<times> (string \<Rightarrow> Character option)" where
  "syncParticipants [] chars = ([], chars)"
| "syncParticipants (participant # rest) chars =
     (case findById chars (p_id participant) of
        Some character \<Rightarrow>
          (let (results, chars') =
                 syncParticipants rest (updateHp chars (p_id participant) (p_hp participant))
           in (\<lparr>sr_id = p_id participant, sr_name = p_name participant,
                 sr_hp = p_hp participant, synced = True\<rparr> # results, chars'))
      | None \<Rightarrow>
          (let (results, chars') = syncParticipants rest chars
           in (\<lparr>sr_id = p_id participant, sr_name = p_name participant,
                 sr_hp = p_hp participant, synced = False\<rparr> # results, chars')))"

text \<open>
  What a handler throws. \<open>EncounterNotFound e\<close> is \<^verbatim>\<open>Error(`Encounter ${e} not found.`)\<close>;
  \<open>EngineError x\<close> is whatever a method of the engine throws.
\<close>

datatype 'x combat_error =
    EncounterNotFound string
  | NoActiveEncounter
  | AttackFieldsMissing
  | HealAmountMissing
  | EngineError 'x

text \<open>
  The answer of end_encounter names the encounter and lists the synced characters
  (\<^verbatim>\<open>syncResults.filter(r => r.synced)\<close>).
\<close>

definition handleEndEncounter ::
  "world \<Rightarrow> string \<Rightarrow> string \<Rightarrow> ('x combat_error + string \<times> SyncResult list) \<times> world" where
  "handleEndEncounter w sessionId encounterId =
     (case manager w (namespacedId sessionId encounterId) of
        None \<Rightarrow> (Inl (EncounterNotFound encounterId), w)
      | Some engine \<Rightarrow>
          (let (syncResults, chars') =
                 (case getState engine of
                    None \<Rightarrow> ([], characters w)
                  | Some finalState \<Rightarrow> syncParticipants (participants finalState) (characters w))
           in (Inr (encounterId, filter synced syncResults),
               w\<lparr>manager := (manager w)(namespacedId sessionId encounterId := None),
                 characters := chars'\<rparr>)))"

text \<open>
  The block "Auto-load from database if not in memory", which handleGetEncounterState,
  handleExecuteCombatAction and handleAdvanceTurn each begin with.
\<close>

definition autoLoad :: "world \<Rightarrow> string \<Rightarrow> string \<Rightarrow> ('x combat_error + CombatEngine) \<times> world" where
  "autoLoad w sessionId encounterId =
     (case manager w (namespacedId sessionId encounterId) of
        Some engine \<Rightarrow> (Inr engine, w)
      | None \<Rightarrow>
          (case encounters w encounterId of
             None \<Rightarrow> (Inl (EncounterNotFound encounterId), w)
           | Some st \<Rightarrow>
               (let engine = loadState (newCombatEngine encounterId) st
                in (Inr engine,
                    w\<lparr>manager := (manager w)(namespacedId sessionId encounterId \<mapsto> engine)\<rparr>))))"

text \<open>The answer of get_encounter_state is the state (as \<^verbatim>\<open>buildStateJson\<close> lays it out).\<close>

definition handleGetEncounterState ::
  "world \<Rightarrow> string \<Rightarrow> string \<Rightarrow> ('x combat_error + CombatState) \<times> world" where
  "handleGetEncounterState w sessionId encounterId =
     (case autoLoad w sessionId encounterId of
        (Inl e, w') \<Rightarrow> (Inl e, w')
      | (Inr engine, w') \<Rightarrow>
          (case getState engine of
             None \<Rightarrow> (Inl NoActiveEncounter, w')
           | Some st \<Rightarrow> (Inr st, w')))"

text \<open>
  An engine of the manager is a mutable object: what a method does to it is seen through the
  manager. \<open>storeEngine\<close> writes the engine back under its key, and \<open>saveEngineState\<close> is
  \<^verbatim>\<open>if (state) repo.saveState(encounterId, state)\<close>.
\<close>

definition storeEngine :: "world \<Rightarrow> string \<Rightarrow> string \<Rightarrow> CombatEngine \<Rightarrow> world" where
  "storeEngine w sessionId encounterId engine =
     w\<lparr>manager := (manager w)(namespacedId sessionId encounterId \<mapsto> engine)\<rparr>"

definition saveEngineState :: "world \<Rightarrow> string \<Rightarrow> CombatEngine \<Rightarrow> world" where
  "saveEngineState w encounterId engine =
     (case getState engine of
        None \<Rightarrow> w
      | Some st \<Rightarrow> w\<lparr>encounters := (encounters w)(encounterId \<mapsto> st)\<rparr>)"

datatype CombatAction = attack | heal

record ExecuteArgs =
  action :: CombatAction
  actorId :: string
  targetId :: string
  attackBonus :: "int option"
  dc :: "int option"
  damage :: "int option"
  amount :: "int option"

text \<open>
  \<^verbatim>\<open>engine.executeAttack\<close> and \<^verbatim>\<open>engine.executeHeal\<close> are parameters: each gives the result
  of the action and the engine after it, or throws.
\<close>

definition handleExecuteCombatAction ::
  "(CombatEngine \<Rightarrow> string \<Rightarrow> string \<Rightarrow> int \<Rightarrow> int \<Rightarrow> int \<Rightarrow> 'x + 'r \<times> CombatEngine)
   \<Rightarrow> (CombatEngine \<Rightarrow> string \<Rightarrow> string \<Rightarrow> int \<Rightarrow> 'x + 'r \<times> CombatEngine)
   \<Rightarrow> world \<Rightarrow> string \<Rightarrow> string \<Rightarrow> ExecuteArgs \<Rightarrow> ('x combat_error + 'r) \<times> world" where
  "handleExecuteCombatAction executeAttack executeHeal w sessionId encounterId args =
     (case autoLoad w sessionId encounterId of
        (Inl e, w') \<Rightarrow> (Inl e, w')
      | (Inr engine, w') \<Rightarrow>
          (case action args of
             attack \<Rightarrow>
               (case (attackBonus args, dc args, damage args) of
                  (Some b, Some d, Some dmg) \<Rightarrow>
                    (case executeAttack engine (actorId args) (targetId args) b d dmg of
                       Inl x \<Rightarrow> (Inl (EngineError x), w')
                     | Inr (result, engine') \<Rightarrow>
                         (Inr result,
                          saveEngineState (storeEngine w' sessionId encounterId engine')
                            encounterId engine'))
                | _ \<Rightarrow> (Inl AttackFieldsMissing, w'))
           | heal \<Rightarrow>
               (case amount args of
                  None \<Rightarrow> (Inl HealAmountMissing, w')
                | Some a \<Rightarrow>
                    (case executeHeal engine (actorId args) (targetId args) a of
                       Inl x \<Rightarrow> (Inl (EngineError x), w')
                     | Inr (result, engine') \<Rightarrow>
                         (Inr result,
                          saveEngineState (storeEngine w' sessionId encounterId engine')
                            encounterId engine')))))"

text \<open>
  \<^verbatim>\<open>engine.nextTurnWithConditions\<close> is a parameter. The answer of advance_turn is the state
  after the turn (null when the engine has none).
\<close>

definition handleAdvanceTurn ::
  "(CombatEngine \<Rightarrow> 'x + CombatEngine)
   \<Rightarrow> world \<Rightarrow> string \<Rightarrow> string \<Rightarrow> ('x combat_error + CombatState option) \<times> world" where
  "handleAdvanceTurn nextTurnWithConditions w sessionId encounterId =
     (case autoLoad w sessionId encounterId of
        (Inl e, w') \<Rightarrow> (Inl e, w')
      | (Inr engine, w') \<Rightarrow>
          (case nextTurnWithConditions engine of
             Inl x \<Rightarrow> (Inl (EngineError x), w')
           | Inr engine' \<Rightarrow>
               (Inr (getState engine'),
                saveEngineState (storeEngine w' sessionId encounterId engine')
                  encounterId engine')))"

text \<open>The last participant of a list that carries a given id.\<close>

definition lastWithId :: "CombatParticipant list \<Rightarrow> string \<Rightarrow> CombatParticipant option" where
  "lastWithId ps cid = find (\<lambda>p. p_id p = cid) (rev ps)"

section \<open>Improvisation (src/server/consolidated/improvisation-manage.ts)\<close>

subsection \<open>advance_durations\<close>

datatype ActorType = character | npc

text \<open>
  The raw input of the action as it reaches \<^verbatim>\<open>AdvanceDurationsSchema\<close>: a field may be
  missing, the target type is any string, \<^verbatim>\<open>rounds\<close> any integer.
\<close>

record AdvanceDurationsInput =
  in_targetId :: "string option"
  in_targetType :: "string option"
  in_rounds :: "int option"

record AdvanceDurationsArgs =
  ad_targetId :: string
  ad_targetType :: ActorType
  rounds :: int

text \<open>\<open>ValidationError fields\<close>: the schema refused the input, with an issue for each field named.\<close>

datatype validation_error = ValidationError "string list"

definition parseActorType :: "string \<Rightarrow> ActorType option" where
  "parseActorType s =
     (if s = ''character'' then Some character else if s = ''npc'' then Some npc else None)"

text \<open>
  \<^verbatim>\<open>z.object({ targetId: z.string(), targetType: z.enum(['character', 'npc']),
  rounds: z.number().int().min(1).default(1) })\<close>: a missing \<^verbatim>\<open>rounds\<close> is 1, a given one must
  be at least 1. The field \<^verbatim>\<open>action\<close> is the literal by which the router has chosen this
  schema.
\<close>

definition AdvanceDurationsSchema :: "AdvanceDurationsInput \<Rightarrow> validation_error + AdvanceDurationsArgs" where
  "AdvanceDurationsSchema raw =
     (let issues =
            (case in_targetId raw of None \<Rightarrow> [''targetId''] | Some _ \<Rightarrow> [])
            @ (case in_targetType raw of
                 None \<Rightarrow> [''targetType'']
               | Some t \<Rightarrow> (case parseActorType t of None \<Rightarrow> [''targetType''] | Some _ \<Rightarrow> []))
            @ (case in_rounds raw of
                 None \<Rightarrow> []
               | Some r \<Rightarrow> if r < 1 then [''rounds''] else [])
      in case (in_targetId raw, Option.bind (in_targetType raw) parseActorType) of
           (Some tid, Some ty) \<Rightarrow>
             if issues = []
             then Inr \<lparr>ad_targetId = tid, ad_targetType = ty,
                       rounds = (case in_rounds raw of None \<Rightarrow> 1 | Some r \<Rightarrow> r)\<rparr>
             else Inl (ValidationError issues)
         | _ \<Rightarrow> Inl (ValidationError issues))"

record 'e AdvanceDurationsResult =
  ar_rounds :: int
  expiredEffects :: "'e list"
  remainingEffects :: "'e list"
  cleanedUp :: nat

text \<open>
  \<^verbatim>\<open>effectsRepo.advanceRounds\<close> and \<^verbatim>\<open>effectsRepo.cleanupExpired\<close>
  (src/storage/repos/custom-effects.repo.ts is not among the sources) are parameters over the
  effects table \<open>'db\<close>: the first gives the advanced and the expired effects, the second the
  number of rows it removed.
\<close>

definition handleAdvanceDurations ::
  "('db \<Rightarrow> string \<Rightarrow> ActorType \<Rightarrow> int \<Rightarrow> ('e list \<times> 'e list) \<times> 'db)
   \<Rightarrow> ('db \<Rightarrow> nat \<times> 'db)
   \<Rightarrow> AdvanceDurationsArgs \<Rightarrow> 'db \<Rightarrow> 'e AdvanceDurationsResult \<times> 'db" where
  "handleAdvanceDurations advanceRounds cleanupExpired args db =
     (let ((advanced, expired), db1) = advanceRounds db (ad_targetId args) (ad_targetType args) (rounds args);
          (n, db2) = cleanupExpired db1
      in (\<lparr>ar_rounds = rounds args, expiredEffects = expired, remainingEffects = advanced,
            cleanedUp = n\<rparr>, db2))"

text \<open>
  Modelled from the spec: the action router (src/utils/action-router.ts is not among the
  sources). Section 4.2: "The chosen sub-schema parses the full input, then invokes the
  sub-handler"; section 7: a validation error is surfaced, the handler is not run.
\<close>

definition advance_durations ::
  "('db \<Rightarrow> string \<Rightarrow> ActorType \<Rightarrow> int \<Rightarrow> ('e list \<times> 'e list) \<times> 'db)
   \<Rightarrow> ('db \<Rightarrow> nat \<times> 'db)
   \<Rightarrow> AdvanceDurationsInput \<Rightarrow> 'db \<Rightarrow> (validation_error + 'e AdvanceDurationsResult) \<times> 'db" where
  "advance_durations advanceRounds cleanupExpired raw db =
     (case AdvanceDurationsSchema raw of
        Inl e \<Rightarrow> (Inl e, db)
      | Inr args \<Rightarrow>
          (let (result, db') = handleAdvanceDurations advanceRounds cleanupExpired args db
           in (Inr result, db')))"

subsection \<open>synthesize\<close>

datatype School =
  Abjuration | Conjuration | Divination | Enchantment | Evocation | Illusion | Necromancy
  | Transmutation

fun schoolName :: "School \<Rightarrow> string" where
  "schoolName Abjuration = ''abjuration''"
| "schoolName Conjuration = ''conjuration''"
| "schoolName Divination = ''divination''"
| "schoolName Enchantment = ''enchantment''"
| "schoolName Evocation = ''evocation''"
| "schoolName Illusion = ''illusion''"
| "schoolName Necromancy = ''necromancy''"
| "schoolName Transmutation = ''transmutation''"

datatype EffectType = Damage | Healing | Status | Utility | Control | Summoning

fun effectTypeName :: "EffectType \<Rightarrow> string" where
  "effectTypeName Damage = ''damage''"
| "effectTypeName Healing = ''healing''"
| "effectTypeName Status = ''status''"
| "effectTypeName Utility = ''utility''"
| "effectTypeName Control = ''control''"
| "effectTypeName Summoning = ''summoning''"

text \<open>
  \<^verbatim>\<open>String.prototype.toLowerCase\<close> on the letters A to Z (a string is a list of bytes here)
  and \<^verbatim>\<open>String.prototype.includes\<close> (\<open>includes_str\<close>).
\<close>

definition lowerChar :: "char \<Rightarrow> char" where
  "lowerChar c =
     (case map_of (zip ''ABCDEFGHIJKLMNOPQRSTUVWXYZ'' ''abcdefghijklmnopqrstuvwxyz'') c of
        Some l \<Rightarrow> l
      | None \<Rightarrow> c)"

definition toLowerCase :: "string \<Rightarrow> string" where
  "toLowerCase s = map lowerChar s"

fun startsWith :: "string \<Rightarrow> string \<Rightarrow> bool" where
  "startsWith s [] = True"
| "startsWith [] (y # t) = False"
| "startsWith (x # s) (y # t) = (x = y \<and> startsWith s t)"

fun includes_str :: "string \<Rightarrow> string \<Rightarrow> bool" where
  "includes_str [] t = (t = [])"
| "includes_str (x # s) t = (startsWith (x # s) t \<or> includes_str s t)"

text \<open>
  \<^verbatim>\<open>dcBreakdown: Record<string, number>\<close> is the list of its entries in insertion order;
  \<open>assign k v\<close> is the assignment \<^verbatim>\<open>dcBreakdown.k = v\<close>, which overwrites the entry of a key
  that is there already.
\<close>

fun assign :: "string \<Rightarrow> int \<Rightarrow> (string \<times> int) list \<Rightarrow> (string \<times> int) list" where
  "assign k v [] = [(k, v)]"
| "assign k v ((k', v') # entries) =
     (if k' = k then (k, v) # entries else (k', v') # assign k v entries)"

definition getAbilityModifier :: "int \<Rightarrow> int" where
  "getAbilityModifier score = (score - 10) div 2"

text \<open>
  The fields of \<^verbatim>\<open>SynthesizeSchema\<close> that the computation of the difficulty, of the roll and
  of the outcome reads. The other fields go into the row of the spellbook only.
\<close>

record SynthesizeArgs =
  casterId :: string
  proposedName :: "string option"
  estimatedLevel :: int
  school :: School
  effectType :: EffectType
  effectDice :: "string option"
  materialValue :: "int option"
  encounterId :: "string option"
  circumstanceModifiers :: "string list option"

datatype Outcome = Mastery | Success | Fizzle | Backfire | Catastrophic

text \<open>
  \<^verbatim>\<open>spellcastingModifier\<close>, \<^verbatim>\<open>casterName\<close> and \<^verbatim>\<open>knownSpells\<close> as the block
  \<^verbatim>\<open>try { const caster = charRepo.findById(args.casterId); ... }\<close> leaves them:
  \<^verbatim>\<open>stats.int ?? stats.intelligence ?? 10\<close>, \<^verbatim>\<open>Math.floor((caster.level || 1) / 4) + 2\<close>,
  \<^verbatim>\<open>caster.knownSpells || []\<close>.
\<close>

definition casterProfile :: "Character option \<Rightarrow> int \<times> string \<times> string list" where
  "casterProfile caster =
     (case caster of
        None \<Rightarrow> (0, ''Caster'', [])
      | Some c \<Rightarrow>
          (let intScore =
                 (case stats c ''int'' of
                    Some v \<Rightarrow> v
                  | None \<Rightarrow> (case stats c ''intelligence'' of Some v \<Rightarrow> v | None \<Rightarrow> 10));
               profBonus = (if level c = 0 then 1 else level c) div 4 + 2
           in (getAbilityModifier intScore + profBonus, name c,
               (case knownSpells c of None \<Rightarrow> [] | Some ks \<Rightarrow> ks))))"

text \<open>One round of the loop \<^verbatim>\<open>for (const modifier of args.circumstanceModifiers)\<close>.\<close>

definition applyCircumstance :: "string \<Rightarrow> int \<times> (string \<times> int) list \<Rightarrow> int \<times> (string \<times> int) list" where
  "applyCircumstance modifier st =
     (let lowerMod = toLowerCase modifier;
          st1 = (if includes_str lowerMod ''ley line'' \<or> includes_str lowerMod ''magical nexus''
                 then (fst st - 3, assign ''leyLine'' (- 3) (snd st)) else st);
          st2 = (if includes_str lowerMod ''blood moon'' \<or> includes_str lowerMod ''eclipse''
                 then (fst st1 - 2, assign ''celestialEvent'' (- 2) (snd st1)) else st1);
          st3 = (if includes_str lowerMod ''desperation'' \<or> includes_str lowerMod ''urgency''
                 then (fst st2 + 2, assign ''desperation'' 2 (snd st2)) else st2)
      in st3)"

definition applyCircumstances :: "string list \<Rightarrow> int \<times> (string \<times> int) list \<Rightarrow> int \<times> (string \<times> int) list" where
  "applyCircumstances modifiers st = foldl (\<lambda>s m. applyCircumstance m s) st modifiers"

text \<open>The section "Calculate DC" of handleSynthesize: the difficulty and its breakdown.\<close>

definition calculateDc :: "SynthesizeArgs \<Rightarrow> string list \<Rightarrow> int \<times> (string \<times> int) list" where
  "calculateDc args known =
     (let st0 = (10 + estimatedLevel args * 2,
                 [(''base'', 10), (''spellLevel'', estimatedLevel args * 2)]);
          st1 = (case encounterId args of
                   None \<Rightarrow> st0
                 | Some e \<Rightarrow> if e = [] then st0 else (fst st0 + 2, assign ''inCombat'' 2 (snd st0)));
          hasRelatedSpell =
            (\<exists>spell \<in> set known.
               includes_str (toLowerCase spell) (schoolName (school args))
               \<or> includes_str (toLowerCase spell) (effectTypeName (effectType args)));
          st2 = (if \<not> hasRelatedSpell then (fst st1 + 3, assign ''novelEffect'' 3 (snd st1))
                 else (fst st1 - 2, assign ''relatedSpell'' (- 2) (snd st1)));
          st3 = (case materialValue args of
                   None \<Rightarrow> st2
                 | Some mv \<Rightarrow>
                     if mv = 0 then st2
                     else (let reduction = min 5 (mv div 100)
                           in (fst st2 - reduction, assign ''materialReduction'' (- reduction) (snd st2))));
          st4 = (case circumstanceModifiers args of
                   None \<Rightarrow> st3
                 | Some ms \<Rightarrow> applyCircumstances ms st3)
      in st4)"

text \<open>The chain of tests that gives the outcome.\<close>

definition classify :: "int \<Rightarrow> int \<Rightarrow> int \<Rightarrow> Outcome" where
  "classify d20Roll rollTotal dc_value =
     (let isNat20 = (d20Roll = 20);
          isNat1 = (d20Roll = 1);
          margin = rollTotal - dc_value
      in if isNat20 \<or> margin \<ge> 10 then Mastery
         else if rollTotal \<ge> dc_value then Success
         else if margin \<ge> - 5 then Fizzle
         else if isNat1 \<or> margin \<le> - 10 then Catastrophic
         else Backfire)"

record 'ws SynthesisResult =
  success :: bool
  outcome :: Outcome
  roll :: int
  modifier :: int
  total_roll :: int
  difficulty :: int
  dcBreakdown :: "(string \<times> int) list"
  spellName :: string
  spellMastered :: bool
  spellSlotConsumed :: bool
  effectTotal :: "int option"
  backfireDamage :: "int option"
  wildSurge :: "'ws option"

text \<open>
  \<^verbatim>\<open>Math.floor(rng() * 20) + 1\<close> for a double \<open>r\<close> that the generator gives, from 0 to 1
  (1 excluded). The product is a double, so it is rounded before the floor is taken.
\<close>

definition d20 :: "real \<Rightarrow> int" where
  "d20 r = \<lfloor>binary64 (r * 20)\<rfloor> + 1"

text \<open>
  \<^verbatim>\<open>WILD_SURGE_TABLE.find(ws => ws.roll === surgeRoll) || WILD_SURGE_TABLE[0]\<close>; the table
  (src/schema/improvisation.ts is not among the sources) is a parameter, a list of entries of
  which \<open>surgeNo\<close> reads the field \<^verbatim>\<open>roll\<close>.
\<close>

definition rollWildSurge :: "'ws list \<Rightarrow> ('ws \<Rightarrow> int) \<Rightarrow> int \<Rightarrow> 'ws option" where
  "rollWildSurge table surgeNo surgeRoll =
     (case find (\<lambda>ws. surgeNo ws = surgeRoll) table of
        Some ws \<Rightarrow> Some ws
      | None \<Rightarrow> (case table of [] \<Rightarrow> None | ws # _ \<Rightarrow> Some ws))"

text \<open>
  The level in the notation \<^verbatim>\<open>`${args.estimatedLevel}d6`\<close>: the schema admits the levels 1
  to 9, which print as one digit.
\<close>

definition levelDigit :: "int \<Rightarrow> string" where
  "levelDigit l = [char_of (48 + nat l)]"

text \<open>
  handleSynthesize. The seeded generator is the sequence \<open>rng\<close> of its numbers: the first is
  the d20, and on a catastrophic outcome the second is the roll on the wild-surge table.
  \<open>rollDice\<close> stands for the function of that name applied to a dice notation and the
  generator: it gives the total, or throws on a notation it cannot read. The result's field
  \<^verbatim>\<open>dc\<close> is \<open>difficulty\<close>, its field \<^verbatim>\<open>total\<close> is \<open>total_roll\<close>; \<open>effectTotal\<close> is the field \<^verbatim>\<open>damage\<close> or \<^verbatim>\<open>healing\<close>. The insert
  into the spellbook on mastery is left out: it touches neither the roll nor the difficulty.
\<close>

definition handleSynthesize ::
  "'ws list \<Rightarrow> ('ws \<Rightarrow> int) \<Rightarrow> (string \<Rightarrow> string + int) \<Rightarrow> (nat \<Rightarrow> real)
   \<Rightarrow> (string \<Rightarrow> Character option) \<Rightarrow> SynthesizeArgs \<Rightarrow> string + 'ws SynthesisResult" where
  "handleSynthesize table surgeNo rollDice rng chars args =
     (let (spellcastingModifier, casterName, known) = casterProfile (findById chars (casterId args));
          (dc', breakdown) = calculateDc args known;
          d20Roll = d20 (rng 0);
          total' = d20Roll + spellcastingModifier;
          outcome' = classify d20Roll total' dc';
          spellName' =
            (case proposedName args of
               Some n \<Rightarrow> if n = [] then casterName @ [CHR 0x27] @ ''s '' @ schoolName (school args)
                                       @ '' '' @ effectTypeName (effectType args)
                         else n
             | None \<Rightarrow> casterName @ [CHR 0x27] @ ''s '' @ schoolName (school args)
                        @ '' '' @ effectTypeName (effectType args));
          result = \<lparr>success = (outcome' = Mastery \<or> outcome' = Success), outcome = outcome',
                    roll = d20Roll, modifier = spellcastingModifier, total_roll = total',
                    difficulty = dc', dcBreakdown = breakdown, spellName = spellName',
                    spellMastered = (outcome' = Mastery),
                    spellSlotConsumed = (outcome' \<noteq> Mastery),
                    effectTotal = None, backfireDamage = None, wildSurge = None\<rparr>
      in if outcome' = Mastery \<or> outcome' = Success then
           (case effectDice args of
              None \<Rightarrow> Inr result
            | Some notation \<Rightarrow>
                if notation = [] then Inr result
                else (case rollDice notation of
                        Inl err \<Rightarrow> Inl err
                      | Inr t \<Rightarrow>
                          if effectType args = Damage \<or> effectType args = Healing
                          then Inr (result\<lparr>effectTotal := Some t\<rparr>)
                          else Inr result))
         else if outcome' = Backfire then
           (case rollDice (levelDigit (estimatedLevel args) @ ''d6'') of
              Inl err \<Rightarrow> Inl err
            | Inr t \<Rightarrow> Inr (result\<lparr>backfireDamage := Some t\<rparr>))
         else if outcome' = Catastrophic then
           Inr (result\<lparr>wildSurge := rollWildSurge table surgeNo (d20 (rng 1))\<rparr>)
         else Inr result)"

text \<open>The sum of the values that a breakdown records.\<close>

definition breakdownSum :: "(string \<times> int) list \<Rightarrow> int" where
  "breakdownSum entries = sum_list (map snd entries)"

text \<open>How many of the circumstance strings match one of two keywords.\<close>

definition matches :: "string \<Rightarrow> string \<Rightarrow> string list \<Rightarrow> nat" where
  "matches kw1 kw2 modifiers =
     length (filter (\<lambda>m. includes_str (toLowerCase m) kw1 \<or> includes_str (toLowerCase m) kw2) modifiers)"

section \<open>Examples and auxiliary notions\<close>

text \<open>An example table for evaluating the operations.\<close>

definition inv_example :: inventory_items where
  "inv_example =
     [(''hero'', ''sword'') \<mapsto> \<lparr>quantity = 1, equipped = True, slot = Some ''hand''\<rparr>,
      (''hero'', ''axe'') \<mapsto> \<lparr>quantity = 1, equipped = False, slot = None\<rparr>,
      (''anna'', ''potion'') \<mapsto> \<lparr>quantity = 3, equipped = False, slot = None\<rparr>]"

text \<open>
  The quantity of an item that a character holds in a table: none without a row.
\<close>

definition held :: "inventory_items \<Rightarrow> string \<Rightarrow> string \<Rightarrow> real" where
  "held db c i = (case db (c, i) of None \<Rightarrow> 0 | Some r \<Rightarrow> quantity r)"

text \<open>
  An example database: three characters, four items, and the arithmetic of the engine on
  small integers. \<open>hoard\<close> is a table in which anna holds \<open>2 ^ 53 + 1\<close> coins, an integer
  that no double holds.
\<close>

definition realm :: sqlite where
  "realm =
     \<lparr>character_ids = {''hero'', ''anna'', ''bob''},
      item_ids = {''sword'', ''axe'', ''potion'', ''coin''},
      sql_add = (\<lambda>a b. a + b),
      sql_sub = (\<lambda>a b. a - b)\<rparr>"

definition hoard :: inventory_items where
  "hoard = [(''anna'', ''coin'') \<mapsto> \<lparr>quantity = 2 ^ 53 + 1, equipped = False, slot = None\<rparr>]"

text \<open>
  Example stores: one reported theft of a ring, seen by a guard; and the empty store.
\<close>

definition theft_example :: theft_store where
  "theft_example =
     \<lparr>theft_records =
        [\<lparr>itemId = ''ring'', stolenFrom = ''merchant'', stolenBy = ''rogue'',
          stolenLocation = None, witnesses = [''guard''], heatLevel = burning,
          reportedToGuards = True, bounty = 50\<rparr>],
      fences = Map.empty\<rparr>"

text \<open>
  A store with one theft of a cloak, burning, with a bounty of 3 and no witness.
\<close>

definition petty_theft :: theft_store where
  "petty_theft =
     \<lparr>theft_records =
        [\<lparr>itemId = ''cloak'', stolenFrom = ''tailor'', stolenBy = ''rogue'',
          stolenLocation = None, witnesses = [], heatLevel = burning,
          reportedToGuards = False, bounty = 3\<rparr>],
      fences = Map.empty\<rparr>"

definition empty_theft_store :: theft_store where
  "empty_theft_store = \<lparr>theft_records = [], fences = Map.empty\<rparr>"

text \<open>
  The store after registering the merchant as a fence and then stealing the merchant's ring.
\<close>

definition fence_then_steal :: theft_store where
  "fence_then_steal =
     snd (handleSteal
            (snd (handleRegisterFence empty_theft_store ''merchant'' None (4 / 10) hot 100 None 7))
            ''rogue'' ''merchant'' ''ring'' None None)"

text \<open>
  Example worlds. In \<open>battle_world\<close> session s1 holds a fight between the persisted hero
  (stored with 20 hit points, 17 left in the fight) and an ad-hoc goblin, and the fight is
  also persisted. In \<open>twin_world\<close> two participants carry the id of the hero.
\<close>

definition hero_character :: Character where
  "hero_character =
     \<lparr>name = ''Valeros'', stats = Map.empty, hp = 20, maxHp = 20, level = 1, knownSpells = None\<rparr>"

definition token :: "string \<Rightarrow> string \<Rightarrow> int \<Rightarrow> int \<Rightarrow> bool \<Rightarrow> CombatParticipant" where
  "token i n h m e =
     \<lparr>p_id = i, p_name = n, initiativeBonus = 0, initiative = 10, isEnemy = e, p_hp = h, p_maxHp = m\<rparr>"

definition battle_state :: CombatState where
  "battle_state =
     \<lparr>participants = [token ''hero'' ''Valeros'' 17 20 False, token ''goblin'' ''Goblin'' 1 7 True],
      turnOrder = [''hero'', ''goblin''], currentTurnIndex = 0, roundNumber = 2\<rparr>"

definition battle_world :: world where
  "battle_world =
     \<lparr>manager = [namespacedId ''s1'' ''fight'' \<mapsto> loadState (newCombatEngine ''battle-1'') battle_state],
      characters = [''hero'' \<mapsto> hero_character],
      encounters = [''fight'' \<mapsto> battle_state]\<rparr>"

text \<open>
  A turn method for the example: the turn passes to the second participant, nothing is thrown.
\<close>

definition secondTurn :: "CombatEngine \<Rightarrow> unit + CombatEngine" where
  "secondTurn engine =
     Inr (engine\<lparr>engineState :=
            map_option (\<lambda>st. st\<lparr>currentTurnIndex := 1\<rparr>) (engineState engine)\<rparr>)"

definition twin_state :: CombatState where
  "twin_state =
     \<lparr>participants = [token ''hero'' ''Valeros'' 5 20 False, token ''hero'' ''Valeros'' 9 20 False],
      turnOrder = [''hero'', ''hero''], currentTurnIndex = 0, roundNumber = 1\<rparr>"

definition twin_world :: world where
  "twin_world =
     \<lparr>manager = [namespacedId ''s1'' ''fight'' \<mapsto> loadState (newCombatEngine ''battle-1'') twin_state],
      characters = [''hero'' \<mapsto> hero_character],
      encounters = Map.empty\<rparr>"

text \<open>
  The input of advance_durations with \<^verbatim>\<open>rounds = 0\<close> for the character hero.
\<close>

definition rounds_zero :: AdvanceDurationsInput where
  "rounds_zero = \<lparr>in_targetId = Some ''hero'', in_targetType = Some ''character'', in_rounds = Some 0\<rparr>"

text \<open>
  A table of effects (name and rounds left) with repository functions for the example.
\<close>

definition keepEffects :: "(string \<times> int) list \<Rightarrow> string \<Rightarrow> ActorType \<Rightarrow> int
    \<Rightarrow> (string list \<times> string list) \<times> (string \<times> int) list" where
  "keepEffects db t ty n = (([], []), db)"

definition cleanNothing :: "(string \<times> int) list \<Rightarrow> nat \<times> (string \<times> int) list" where
  "cleanNothing db = (0, db)"

text \<open>
  Examples for synthesize: the mage Mira (intelligence 16, level 1, so a spellcasting modifier
  of 5) knows an evocation spell and attempts a level 1 evocation damage spell.
\<close>

definition mage :: Character where
  "mage = \<lparr>name = ''Mira'', stats = [''int'' \<mapsto> 16], hp = 12, maxHp = 12, level = 1,
           knownSpells = Some [''Evocation Bolt'']\<rparr>"

definition fizzle_args :: SynthesizeArgs where
  "fizzle_args =
     \<lparr>casterId = ''mage'', proposedName = Some ''Spark'', estimatedLevel = 1, school = Evocation,
      effectType = Damage, effectDice = None, materialValue = None, encounterId = None,
      circumstanceModifiers = None\<rparr>"

text \<open>
  Notions for comparing the difficulty with its breakdown: the value a breakdown records for a
  key (0 when it has none), the difference between a difficulty and the sum of its breakdown,
  and what a keyword group adds to that difference when \<open>n\<close> strings match it.
\<close>

definition entry :: "(string \<times> int) list \<Rightarrow> string \<Rightarrow> int" where
  "entry entries k = (case map_of entries k of None \<Rightarrow> 0 | Some v \<Rightarrow> v)"

definition gap :: "int \<times> (string \<times> int) list \<Rightarrow> int" where
  "gap st = fst st - breakdownSum (snd st)"

definition extra :: "int \<Rightarrow> int \<Rightarrow> nat \<Rightarrow> int" where
  "extra e v n = (if n = 0 then 0 else e + v * int (n - 1))"

text \<open>
  The three tests of the loop, by keyword group.
\<close>

definition leyMatch :: "string \<Rightarrow> bool" where
  "leyMatch m \<longleftrightarrow> includes_str (toLowerCase m) ''ley line'' \<or> includes_str (toLowerCase m) ''magical nexus''"

definition celestialMatch :: "string \<Rightarrow> bool" where
  "celestialMatch m \<longleftrightarrow> includes_str (toLowerCase m) ''blood moon'' \<or> includes_str (toLowerCase m) ''eclipse''"

definition desperationMatch :: "string \<Rightarrow> bool" where
  "desperationMatch m \<longleftrightarrow> includes_str (toLowerCase m) ''desperation'' \<or> includes_str (toLowerCase m) ''urgency''"

text \<open>
  The difficulty and breakdown before the loop over the circumstance strings, and the strings.
\<close>

definition beforeCircumstances :: "SynthesizeArgs \<Rightarrow> string list \<Rightarrow> int \<times> (string \<times> int) list" where
  "beforeCircumstances args known = calculateDc (args\<lparr>circumstanceModifiers := None\<rparr>) known"

definition modifiersOf :: "SynthesizeArgs \<Rightarrow> string list" where
  "modifiersOf args = (case circumstanceModifiers args of None \<Rightarrow> [] | Some ms \<Rightarrow> ms)"

text \<open>
  The attempt of the mage with two strings that name a ley line, and with one.
\<close>

definition ley_twice_args :: SynthesizeArgs where
  "ley_twice_args =
     fizzle_args\<lparr>circumstanceModifiers := Some [''on a ley line'', ''Ley Line nearby'']\<rparr>"

definition ley_once_args :: SynthesizeArgs where
  "ley_once_args =
     fizzle_args\<lparr>circumstanceModifiers := Some [''on a Ley Line'', ''out of desperation'']\<rparr>"

section \<open>Properties of the rounding to doubles\<close>

text \<open>
  The rounding of a number between two consecutive powers of two, and the doubles of some
  numbers of the examples.
\<close>

lemma pow2_powr: "pow2 k = 2 powr (of_int k)"
  by (simp add: pow2_def powr_int)

lemma binary64_eval:
  assumes "pow2 k \<le> \<bar>x\<bar>" and "\<bar>x\<bar> < pow2 (k + 1)" and "- 1022 \<le> k"
  shows "binary64 x = of_int (roundHalfEven (x / pow2 (k - 52))) * pow2 (k - 52)"
proof -
  have "0 < pow2 k" by (simp add: pow2_def)
  then have pos: "0 < \<bar>x\<bar>" using assms(1) by linarith
  then have nz: "x \<noteq> 0" by auto
  have "\<lfloor>log 2 \<bar>x\<bar>\<rfloor> = k"
    using assms(1,2) pos by (simp add: floor_log_eq_powr_iff pow2_powr)
  moreover have "max (k - 52) (- 1074) = k - 52" using assms(3) by simp
  ultimately show ?thesis using nz by (simp add: binary64_def Let_def)
qed

lemma binary64_1: "binary64 1 = 1"
  using binary64_eval [of 0 1] by (simp add: pow2_def roundHalfEven_def)

lemma binary64_2: "binary64 2 = 2"
  using binary64_eval [of 1 2] by (simp add: pow2_def roundHalfEven_def)

lemma binary64_3: "binary64 3 = 3"
  using binary64_eval [of 1 3] by (simp add: pow2_def roundHalfEven_def)

lemma binary64_hoard: "binary64 (2 ^ 53 + 1) = 2 ^ 53"
  using binary64_eval [of 53 "2 ^ 53 + 1"] by (simp add: pow2_def roundHalfEven_def)

section \<open>Properties of the inventory repository\<close>

text \<open>
  Claim C4, as amended. A transfer \<open>transferItem env db fromId toId item q\<close> whose source
  row is absent, reads less than \<open>q\<close> or is equipped returns false and leaves the table as
  it was. Otherwise
  the transaction runs its two writes: the source row is deleted (when it reads exactly \<open>q\<close>)
  or decremented by \<open>q\<close>, then the destination row is incremented by \<open>q\<close> or, when absent,
  inserted with quantity \<open>q\<close>. When the destination row has to be inserted and the recipient
  is no character (or the item no item), the insertion violates the foreign key: the function
  throws, the transaction is rolled back and the table is as it was, the write to the source
  row undone. In every other case the function returns true and the table has both writes;
  for two different characters that is the source row decremented or deleted and the
  destination row incremented or inserted, every other row untouched. So every transfer
  leaves the table unchanged or with both writes, never with one, but it has three results:
  false, true and the exception. The source row is compared as the double that JavaScript
  reads.
\<close>

theorem transferItem_contract:
  assumes "transferItem env db fromId toId item q = (res, db')"
  shows
    "(case db (fromId, item) of
        None \<Rightarrow> res = Inr False \<and> db' = db
      | Some row \<Rightarrow>
          if binary64 (quantity row) < q \<or> equipped row then res = Inr False \<and> db' = db
          else
            (let src = (if binary64 (quantity row) = q then None
                        else Some (row\<lparr>quantity := sql_sub env (quantity row) q\<rparr>));
                 mid = db((fromId, item) := src);
                 incr = (\<lambda>e. case e of
                           None \<Rightarrow> \<lparr>quantity = q, equipped = False, slot = None\<rparr>
                         | Some r \<Rightarrow> r\<lparr>quantity := sql_add env (quantity r) q\<rparr>)
             in if mid (toId, item) = None \<and> \<not> (toId \<in> character_ids env \<and> item \<in> item_ids env)
                then res = Inl ForeignKeyViolation \<and> db' = db
                else res = Inr True
                   \<and> db' = mid((toId, item) \<mapsto> incr (mid (toId, item)))
                   \<and> (fromId \<noteq> toId \<longrightarrow>
                         db' (fromId, item) = src \<and> db' (toId, item) = Some (incr (db (toId, item))))
                   \<and> (\<forall>k. k \<noteq> (fromId, item) \<and> k \<noteq> (toId, item) \<longrightarrow> db' k = db k)))"
proof (cases "db (fromId, item)")
  case None
  then show ?thesis using assms by (simp add: transferItem_def)
next
  case (Some row)
  show ?thesis
  proof (cases "binary64 (quantity row) < q \<or> equipped row")
    case True
    then show ?thesis using assms Some by (auto simp: transferItem_def split: if_splits)
  next
    case False
    define src where "src = (if binary64 (quantity row) = q then None
                        else Some (row\<lparr>quantity := sql_sub env (quantity row) q\<rparr>))"
    define mid where "mid = db((fromId, item) := src)"
    have rs: "removeFromSource env row fromId item q db = mid"
      using Some by (simp add: removeFromSource_def deleteRow_def decrementRow_def mid_def src_def)
    have t: "transferItem env db fromId toId item q =
               (case transaction (\<lambda>d. insertOrIncrement env (removeFromSource env row fromId item q d) toId item q) db of
                  (Inl e, db') \<Rightarrow> (Inl e, db')
                | (Inr u, db') \<Rightarrow> (Inr True, db'))"
      using Some False by (simp add: transferItem_def)
    show ?thesis
    proof (cases "mid (toId, item) = None \<and> \<not> (toId \<in> character_ids env \<and> item \<in> item_ids env)")
      case fk: True
      then have "insertOrIncrement env mid toId item q = Inl ForeignKeyViolation"
        by (auto simp: insertOrIncrement_def)
      then have "res = Inl ForeignKeyViolation \<and> db' = db"
        using assms t rs by (simp add: transaction_def)
      then show ?thesis
        using Some False fk [unfolded mid_def src_def] by (simp add: Let_def)
    next
      case ok: False
      define incr where "incr = (\<lambda>e. case e of
                           None \<Rightarrow> \<lparr>quantity = q, equipped = False, slot = None\<rparr>
                         | Some r \<Rightarrow> r\<lparr>quantity := sql_add env (quantity r) q\<rparr>)"
      have "insertOrIncrement env mid toId item q = Inr (mid((toId, item) \<mapsto> incr (mid (toId, item))))"
        using ok by (auto simp: insertOrIncrement_def incr_def split: option.splits)
      then have r: "res = Inr True" and d: "db' = mid((toId, item) \<mapsto> incr (mid (toId, item)))"
        using assms t rs by (simp_all add: transaction_def)
      have o1: "fromId \<noteq> toId \<longrightarrow> db' (fromId, item) = src \<and> db' (toId, item) = Some (incr (db (toId, item)))"
        unfolding d by (simp add: mid_def)
      have o2: "\<forall>k. k \<noteq> (fromId, item) \<and> k \<noteq> (toId, item) \<longrightarrow> db' k = db k"
        unfolding d by (simp add: mid_def)
      show ?thesis
        using Some False ok [unfolded mid_def src_def] r d [unfolded mid_def src_def incr_def]
          o1 [unfolded src_def incr_def] o2
        by (simp add: Let_def)
    qed
  qed
qed

text \<open>
  Witness of C4: anna hands two of her three potions to bob, who had none; an equipped sword,
  four potions and a potion that bob does not have are refused; handing the axe to a recipient
  who is no character throws and leaves the table as it was.
\<close>

theorem transferItem_contract_witness:
  "fst (transferItem realm inv_example ''anna'' ''bob'' ''potion'' 2) = Inr True
   \<and> snd (transferItem realm inv_example ''anna'' ''bob'' ''potion'' 2) (''anna'', ''potion'')
       = Some \<lparr>quantity = 1, equipped = False, slot = None\<rparr>
   \<and> snd (transferItem realm inv_example ''anna'' ''bob'' ''potion'' 2) (''bob'', ''potion'')
       = Some \<lparr>quantity = 2, equipped = False, slot = None\<rparr>
   \<and> transferItem realm inv_example ''hero'' ''nobody'' ''axe'' 1 = (Inl ForeignKeyViolation, inv_example)
   \<and> transferItem realm inv_example ''hero'' ''bob'' ''sword'' 1 = (Inr False, inv_example)
   \<and> transferItem realm inv_example ''anna'' ''bob'' ''potion'' 4 = (Inr False, inv_example)
   \<and> transferItem realm inv_example ''bob'' ''anna'' ''potion'' 1 = (Inr False, inv_example)"
proof -
  let ?r = "transferItem realm inv_example ''anna'' ''bob'' ''potion'' 2"
  let ?t = "transferItem realm inv_example ''hero'' ''nobody'' ''axe'' 1"
  have e: "?r = (fst ?r, snd ?r)" by simp
  have f: "?t = (fst ?t, snd ?t)" by simp
  have look: "inv_example (''anna'', ''potion'') = Some \<lparr>quantity = 3, equipped = False, slot = None\<rparr>"
     "inv_example (''bob'', ''potion'') = None"
     "inv_example (''hero'', ''axe'') = Some \<lparr>quantity = 1, equipped = False, slot = None\<rparr>"
     "inv_example (''nobody'', ''axe'') = None"
    by (simp_all add: inv_example_def)
  have a: "fst ?r = Inr True \<and> snd ?r (''anna'', ''potion'') = Some \<lparr>quantity = 1, equipped = False, slot = None\<rparr>
         \<and> snd ?r (''bob'', ''potion'') = Some \<lparr>quantity = 2, equipped = False, slot = None\<rparr>"
    using transferItem_contract [OF e] by (simp add: look Let_def binary64_3 realm_def)
  have "fst ?t = Inl ForeignKeyViolation \<and> snd ?t = inv_example"
    using transferItem_contract [OF f] by (simp add: look Let_def binary64_1 realm_def)
  then have b: "?t = (Inl ForeignKeyViolation, inv_example)"
    using f by simp
  have e2: "transferItem realm inv_example ''hero'' ''bob'' ''sword'' 1 = (Inr False, inv_example)"
     "transferItem realm inv_example ''anna'' ''bob'' ''potion'' 4 = (Inr False, inv_example)"
     "transferItem realm inv_example ''bob'' ''anna'' ''potion'' 1 = (Inr False, inv_example)"
    by (simp_all add: transferItem_def inv_example_def binary64_1 binary64_3)
  show ?thesis using a b e2 by simp
qed

text \<open>
  Counterexample to C4 as stated (every transfer either returns false without a change or
  performs both writes): the recipient is no character, and anna's transfer of two potions to
  nobody neither returns false nor writes anything, it throws.
\<close>

theorem transferItem_missing_recipient_counterexample:
  "transferItem realm inv_example ''anna'' ''nobody'' ''potion'' 2 = (Inl ForeignKeyViolation, inv_example)"
  by (simp add: transferItem_def transaction_def insertOrIncrement_def removeFromSource_def
      decrementRow_def deleteRow_def inv_example_def realm_def binary64_3)

text \<open>
  The rollback is what keeps the table: the closure of that transfer had already decremented
  anna's row when the insertion failed. A transfer that returns true moves the quantity, it
  takes \<open>q\<close> from what the source holds and adds \<open>q\<close> to what the recipient holds, when
  the engine's arithmetic on the two rows is the exact one and the source row holds a number
  that is a double. Where a row holds an integer that no double holds, the comparison in
  doubles shows: a transfer of \<open>2 ^ 53\<close> coins out of \<open>2 ^ 53 + 1\<close> deletes the source row,
  since the row reads as \<open>2 ^ 53\<close>.
\<close>

lemma transferItem_first_write_undone:
  "removeFromSource realm \<lparr>quantity = 3, equipped = False, slot = None\<rparr> ''anna'' ''potion'' 2 inv_example
       (''anna'', ''potion'') = Some \<lparr>quantity = 1, equipped = False, slot = None\<rparr>
   \<and> snd (transferItem realm inv_example ''anna'' ''nobody'' ''potion'' 2) (''anna'', ''potion'')
       = Some \<lparr>quantity = 3, equipped = False, slot = None\<rparr>"
  by (simp add: transferItem_def transaction_def insertOrIncrement_def removeFromSource_def
      decrementRow_def deleteRow_def inv_example_def realm_def binary64_3)

lemma transferItem_conserves_quantity:
  assumes t: "transferItem env db fromId toId item q = (Inr True, db')"
    and ne: "fromId \<noteq> toId"
    and row: "db (fromId, item) = Some row"
    and exact: "binary64 (quantity row) = quantity row"
    and add: "\<And>a. sql_add env a q = a + q" and sub: "\<And>a. sql_sub env a q = a - q"
  shows "held db' fromId item = held db fromId item - q \<and> held db' toId item = held db toId item + q"
proof -
  have a: "\<not> (binary64 (quantity row) < q \<or> equipped row)"
    using t row by (auto simp: transferItem_def split: if_splits)
  have b: "\<not> (held db' fromId item = held db fromId item - q
              \<and> held db' toId item = held db toId item + q) \<Longrightarrow> False"
    using t row a ne exact
    by (auto simp: transferItem_def transaction_def insertOrIncrement_def removeFromSource_def
          deleteRow_def decrementRow_def held_def add sub
        split: option.splits if_splits sum.splits)
  then show ?thesis by blast
qed

lemma transferItem_unsafe_integer:
  "transferItem realm hoard ''anna'' ''bob'' ''coin'' (2 ^ 53)
     = (Inr True, [(''bob'', ''coin'') \<mapsto> \<lparr>quantity = 2 ^ 53, equipped = False, slot = None\<rparr>])"
proof -
  have "hoard (''anna'', ''coin'') = Some \<lparr>quantity = 2 ^ 53 + 1, equipped = False, slot = None\<rparr>"
    by (simp add: hoard_def)
  moreover have "deleteRow hoard ''anna'' ''coin'' = Map.empty"
    by (simp add: deleteRow_def hoard_def)
  moreover have "binary64 9007199254740993 = 9007199254740992"
    using binary64_hoard by simp
  ultimately show ?thesis
    by (simp add: transferItem_def transaction_def insertOrIncrement_def removeFromSource_def
        realm_def)
qed

text \<open>
  The invariant is kept by any operation that leaves every equipped row as it found it, and by
  equipping a row into a slot that no row of the character holds.
\<close>

lemma unequipSlot_equipped:
  "unequipSlot db c s k = Some r \<Longrightarrow> equipped r \<Longrightarrow> db k = Some r"
  by (auto simp: unequipSlot_def split: option.splits if_splits)

lemma unequipItem_equipped:
  "unequipItem db c i k = Some r \<Longrightarrow> equipped r \<Longrightarrow> db k = Some r"
  by (auto simp: unequipItem_def split: option.splits if_splits)

lemma equip_inv_antimono:
  assumes sub: "\<And>k r. db' k = Some r \<Longrightarrow> equipped r \<Longrightarrow> db k = Some r"
    and inv: "equip_inv db"
  shows "equip_inv db'"
proof -
  have a: "equipped_has_slot db'"
    unfolding equipped_has_slot_def
  proof (intro allI impI)
    fix k r assume "db' k = Some r \<and> equipped r"
    then have "db k = Some r" "equipped r" using sub by auto
    then show "slot r \<noteq> None" using inv unfolding equip_inv_def equipped_has_slot_def by blast
  qed
  have b: "one_per_slot db'"
    unfolding one_per_slot_def
  proof (intro allI impI)
    fix c i j r r'
    assume h: "db' (c, i) = Some r \<and> db' (c, j) = Some r' \<and> equipped r \<and> equipped r' \<and> slot r = slot r'"
    then have "db (c, i) = Some r" "db (c, j) = Some r'" using sub by auto
    then show "i = j" using h inv unfolding equip_inv_def one_per_slot_def by blast
  qed
  show ?thesis using a b by (simp add: equip_inv_def)
qed

lemma unequipSlot_inv: "equip_inv db \<Longrightarrow> equip_inv (unequipSlot db c s)"
  by (rule equip_inv_antimono[where db = db]) (auto dest: unequipSlot_equipped)

lemma unequipItem_inv: "equip_inv db \<Longrightarrow> equip_inv (unequipItem db c i)"
  by (rule equip_inv_antimono[where db = db]) (auto dest: unequipItem_equipped)

lemma unequipSlot_free:
  "unequipSlot db c s (c, j) = Some r \<Longrightarrow> slot r \<noteq> Some s"
  unfolding unequipSlot_def by (auto split: option.splits if_splits)

lemma equipRow_inv:
  assumes inv: "equip_inv d"
    and free: "\<And>j r. d (c, j) = Some r \<Longrightarrow> slot r \<noteq> Some s"
  shows "equip_inv (equipRow d s c i)"
proof (cases "d (c, i)")
  case None
  then show ?thesis using inv by (simp add: equipRow_def)
next
  case (Some r0)
  let ?n = "r0\<lparr>equipped := True, slot := Some s\<rparr>"
  have eq: "equipRow d s c i = d((c, i) \<mapsto> ?n)"
    using Some by (simp add: equipRow_def)
  have a: "equipped_has_slot (d((c, i) \<mapsto> ?n))"
    unfolding equipped_has_slot_def
  proof (intro allI impI)
    fix k r assume h: "(d((c, i) \<mapsto> ?n)) k = Some r \<and> equipped r"
    show "slot r \<noteq> None"
    proof (cases "k = (c, i)")
      case True then show ?thesis using h by auto
    next
      case False
      then have "d k = Some r" using h by (auto split: if_splits)
      then show ?thesis using h inv unfolding equip_inv_def equipped_has_slot_def by blast
    qed
  qed
  have b: "one_per_slot (d((c, i) \<mapsto> ?n))"
    unfolding one_per_slot_def
  proof (intro allI impI)
    fix c' i' j' r r'
    assume h: "(d((c, i) \<mapsto> ?n)) (c', i') = Some r \<and> (d((c, i) \<mapsto> ?n)) (c', j') = Some r'
               \<and> equipped r \<and> equipped r' \<and> slot r = slot r'"
    show "i' = j'"
    proof (cases "(c', i') = (c, i)")
      case T1: True
      show ?thesis
      proof (cases "(c', j') = (c, i)")
        case True then show ?thesis using T1 by simp
      next
        case False
        then have "d (c, j') = Some r'" using h T1 by (auto split: if_splits)
        then have "slot r' \<noteq> Some s" by (rule free)
        moreover have "slot r = Some s" using h T1 by auto
        ultimately show ?thesis using h by simp
      qed
    next
      case F1: False
      then have di: "d (c', i') = Some r" using h by (auto split: if_splits)
      show ?thesis
      proof (cases "(c', j') = (c, i)")
        case True
        then have "d (c, i') = Some r" using di by simp
        then have "slot r \<noteq> Some s" by (rule free)
        moreover have "slot r' = Some s" using h True by auto
        ultimately show ?thesis using h by simp
      next
        case False
        then have "d (c', j') = Some r'" using h by (auto split: if_splits)
        then show ?thesis using di h inv unfolding equip_inv_def one_per_slot_def by blast
      qed
    qed
  qed
  show ?thesis unfolding eq using a b by (simp add: equip_inv_def)
qed

lemma equipItem_inv: "equip_inv db \<Longrightarrow> equip_inv (equipItem db c i s)"
  unfolding equipItem_def
  by (rule equipRow_inv) (auto intro: unequipSlot_inv dest: unequipSlot_free)

lemma apply_equip_op_inv: "equip_inv db \<Longrightarrow> equip_inv (apply_equip_op db op)"
  by (cases op) (simp_all add: equipItem_inv unequipItem_inv)

lemma foldl_equip_inv: "equip_inv db \<Longrightarrow> equip_inv (foldl apply_equip_op db ops)"
  by (induction ops arbitrary: db) (simp_all add: apply_equip_op_inv)

text \<open>
  Adding, removing and transferring change quantities and insert unequipped rows: every
  equipped row afterwards was an equipped row of the same slot before.
\<close>

lemma equip_inv_from_equipped:
  assumes sub: "\<And>k r. db' k = Some r \<Longrightarrow> equipped r \<Longrightarrow>
                  \<exists>r0. db k = Some r0 \<and> equipped r0 \<and> slot r0 = slot r"
    and inv: "equip_inv db"
  shows "equip_inv db'"
proof -
  have a: "equipped_has_slot db'"
    unfolding equipped_has_slot_def
  proof (intro allI impI)
    fix k r assume "db' k = Some r \<and> equipped r"
    then obtain r0 where "db k = Some r0" "equipped r0" "slot r0 = slot r" using sub by blast
    then show "slot r \<noteq> None" using inv unfolding equip_inv_def equipped_has_slot_def by metis
  qed
  have b: "one_per_slot db'"
    unfolding one_per_slot_def
  proof (intro allI impI)
    fix c i j r r'
    assume h: "db' (c, i) = Some r \<and> db' (c, j) = Some r' \<and> equipped r \<and> equipped r' \<and> slot r = slot r'"
    obtain r0 where r0: "db (c, i) = Some r0" "equipped r0" "slot r0 = slot r" using sub h by blast
    obtain r1 where r1: "db (c, j) = Some r1" "equipped r1" "slot r1 = slot r'" using sub h by blast
    have "slot r0 = slot r1" using r0 r1 h by simp
    then show "i = j" using r0 r1 inv unfolding equip_inv_def one_per_slot_def by blast
  qed
  show ?thesis using a b by (simp add: equip_inv_def)
qed

lemma insertOrIncrement_equipped:
  "insertOrIncrement env db c i q = Inr db' \<Longrightarrow> db' k = Some r \<Longrightarrow> equipped r \<Longrightarrow>
     \<exists>r0. db k = Some r0 \<and> equipped r0 \<and> slot r0 = slot r"
  by (auto simp: insertOrIncrement_def split: option.splits if_splits)

lemma deleteRow_equipped:
  "deleteRow db c i k = Some r \<Longrightarrow> equipped r \<Longrightarrow>
     \<exists>r0. db k = Some r0 \<and> equipped r0 \<and> slot r0 = slot r"
  by (auto simp: deleteRow_def split: if_splits)

lemma decrementRow_equipped:
  "decrementRow env db q c i k = Some r \<Longrightarrow> equipped r \<Longrightarrow>
     \<exists>r0. db k = Some r0 \<and> equipped r0 \<and> slot r0 = slot r"
  by (auto simp: decrementRow_def split: option.splits if_splits)

lemma insertOrIncrement_inv:
  "equip_inv db \<Longrightarrow> insertOrIncrement env db c i q = Inr db' \<Longrightarrow> equip_inv db'"
  by (rule equip_inv_from_equipped [where db = db]) (auto dest: insertOrIncrement_equipped)

lemma deleteRow_inv: "equip_inv db \<Longrightarrow> equip_inv (deleteRow db c i)"
  by (rule equip_inv_from_equipped [where db = db]) (auto dest: deleteRow_equipped)

lemma decrementRow_inv: "equip_inv db \<Longrightarrow> equip_inv (decrementRow env db q c i)"
  by (rule equip_inv_from_equipped [where db = db]) (auto dest: decrementRow_equipped)

lemma addItem_inv: "equip_inv db \<Longrightarrow> equip_inv (snd (addItem env db c i q))"
  by (cases "insertOrIncrement env db c i q") (simp_all add: addItem_def insertOrIncrement_inv)

lemma removeItem_inv: "equip_inv db \<Longrightarrow> equip_inv (snd (removeItem env db c i q))"
  by (simp add: removeItem_def deleteRow_inv decrementRow_inv split: option.splits)

lemma removeFromSource_inv: "equip_inv db \<Longrightarrow> equip_inv (removeFromSource env row c i q db)"
  by (simp add: removeFromSource_def deleteRow_inv decrementRow_inv)

lemma transaction_inv:
  assumes "equip_inv db" and "\<And>db'. body db = Inr db' \<Longrightarrow> equip_inv db'"
  shows "equip_inv (snd (transaction body db))"
  using assms by (cases "body db") (simp_all add: transaction_def)

lemma transferItem_inv:
  assumes inv: "equip_inv db"
  shows "equip_inv (snd (transferItem env db c c' i q))"
proof (cases "db (c, i)")
  case None
  then show ?thesis using inv by (simp add: transferItem_def)
next
  case (Some row)
  let ?body = "\<lambda>d. insertOrIncrement env (removeFromSource env row c i q d) c' i q"
  have t: "equip_inv (snd (transaction ?body db))"
  proof (rule transaction_inv [OF inv])
    fix db' assume "insertOrIncrement env (removeFromSource env row c i q db) c' i q = Inr db'"
    then show "equip_inv db'"
      using insertOrIncrement_inv [OF removeFromSource_inv [OF inv]] by blast
  qed
  have s: "snd (case transaction ?body db of (Inl e, db') \<Rightarrow> (Inl e, db') | (Inr u, db') \<Rightarrow> (Inr True, db'))
             = snd (transaction ?body db)"
    by (cases "transaction ?body db") (simp split: sum.splits)
  show ?thesis using Some inv t s by (simp add: transferItem_def)
qed

lemma empty_inv: "equip_inv Map.empty"
  by (simp add: equip_inv_def equipped_has_slot_def one_per_slot_def)

lemma apply_repo_op_inv: "equip_inv db \<Longrightarrow> equip_inv (apply_repo_op env db op)"
  by (cases op)
     (simp_all add: addItem_inv removeItem_inv transferItem_inv equipItem_inv unequipItem_inv)

lemma run_repo_ops_inv: "equip_inv db \<Longrightarrow> equip_inv (run_repo_ops env db ops)"
  unfolding run_repo_ops_def
  by (induction ops arbitrary: db) (simp_all add: apply_repo_op_inv)

lemma inv_example_ok: "equip_inv inv_example"
  unfolding equip_inv_def equipped_has_slot_def one_per_slot_def inv_example_def
  by (auto split: if_splits)

text \<open>
  Claim C8. In every table that the repository reaches from the empty table, whatever the
  parent tables and the arithmetic of the database are, and after any further sequence of
  equipItem and unequipItem, every equipped row has a slot and no two equipped rows of a
  character share a slot. More generally, from any table with this property every sequence
  of equipItem and unequipItem leads to such a table again. equipItem first clears the target
  slot: after it, no other row of the character carries that slot.
\<close>

theorem equip_ops_preserve_invariant:
  "equip_inv (run_repo_ops env Map.empty history)
   \<and> equip_inv (run_equip_ops (run_repo_ops env Map.empty history) ops)
   \<and> (equip_inv db \<longrightarrow> equip_inv (run_equip_ops db ops))
   \<and> (\<forall>j r. j \<noteq> i \<and> equipItem db c i s (c, j) = Some r \<longrightarrow> slot r \<noteq> Some s)"
proof (intro conjI impI)
  show reach: "equip_inv (run_repo_ops env Map.empty history)"
    by (rule run_repo_ops_inv) (rule empty_inv)
  then show "equip_inv (run_equip_ops (run_repo_ops env Map.empty history) ops)"
    unfolding run_equip_ops_def by (rule foldl_equip_inv)
next
  assume "equip_inv db"
  then show "equip_inv (run_equip_ops db ops)"
    unfolding run_equip_ops_def by (rule foldl_equip_inv)
next
  show "\<forall>j r. j \<noteq> i \<and> equipItem db c i s (c, j) = Some r \<longrightarrow> slot r \<noteq> Some s"
  proof (intro allI impI)
    fix j r assume h: "j \<noteq> i \<and> equipItem db c i s (c, j) = Some r"
    then have "unequipSlot db c s (c, j) = Some r"
      by (auto simp: equipItem_def equipRow_def split: option.splits if_splits)
    then show "slot r \<noteq> Some s" by (rule unequipSlot_free)
  qed
qed

text \<open>
  Witness of C8: the hero is given a sword and an axe and holds the sword in the hand;
  equipping the axe into the hand takes the sword out of it.
\<close>

theorem equip_ops_preserve_invariant_witness:
  "equip_inv (run_repo_ops realm Map.empty
                [AddItem ''hero'' ''sword'' 1, AddItem ''hero'' ''axe'' 1,
                 EquipItem ''hero'' ''sword'' ''hand'', EquipItem ''hero'' ''axe'' ''hand''])
   \<and> run_repo_ops realm Map.empty
         [AddItem ''hero'' ''sword'' 1, AddItem ''hero'' ''axe'' 1,
          EquipItem ''hero'' ''sword'' ''hand'', EquipItem ''hero'' ''axe'' ''hand''] (''hero'', ''axe'')
       = Some \<lparr>quantity = 1, equipped = True, slot = Some ''hand''\<rparr>
   \<and> run_repo_ops realm Map.empty
         [AddItem ''hero'' ''sword'' 1, AddItem ''hero'' ''axe'' 1,
          EquipItem ''hero'' ''sword'' ''hand'', EquipItem ''hero'' ''axe'' ''hand''] (''hero'', ''sword'')
       = Some \<lparr>quantity = 1, equipped = False, slot = None\<rparr>
   \<and> equip_inv inv_example
   \<and> equip_inv (run_equip_ops inv_example [Equip ''hero'' ''axe'' ''hand'', Unequip ''hero'' ''sword''])"
proof -
  note T = equip_ops_preserve_invariant
             [of realm "[AddItem ''hero'' ''sword'' 1, AddItem ''hero'' ''axe'' 1,
                   EquipItem ''hero'' ''sword'' ''hand'', EquipItem ''hero'' ''axe'' ''hand'']"
                 "[Equip ''hero'' ''axe'' ''hand'', Unequip ''hero'' ''sword'']" inv_example]
  have h: "equip_inv inv_example" by (rule inv_example_ok)
  have a: "equip_inv (run_repo_ops realm Map.empty
                [AddItem ''hero'' ''sword'' 1, AddItem ''hero'' ''axe'' 1,
                 EquipItem ''hero'' ''sword'' ''hand'', EquipItem ''hero'' ''axe'' ''hand''])"
    by (rule T [THEN conjunct1])
  have b: "equip_inv (run_equip_ops inv_example [Equip ''hero'' ''axe'' ''hand'', Unequip ''hero'' ''sword''])"
    using T [THEN conjunct2, THEN conjunct2, THEN conjunct1] h by (rule mp)
  have c: "run_repo_ops realm Map.empty
         [AddItem ''hero'' ''sword'' 1, AddItem ''hero'' ''axe'' 1,
          EquipItem ''hero'' ''sword'' ''hand'', EquipItem ''hero'' ''axe'' ''hand''] (''hero'', ''axe'')
       = Some \<lparr>quantity = 1, equipped = True, slot = Some ''hand''\<rparr>"
    by (simp add: run_repo_ops_def addItem_def insertOrIncrement_def equipItem_def equipRow_def
        unequipSlot_def realm_def)
  have d: "run_repo_ops realm Map.empty
         [AddItem ''hero'' ''sword'' 1, AddItem ''hero'' ''axe'' 1,
          EquipItem ''hero'' ''sword'' ''hand'', EquipItem ''hero'' ''axe'' ''hand''] (''hero'', ''sword'')
       = Some \<lparr>quantity = 1, equipped = False, slot = None\<rparr>"
    by (simp add: run_repo_ops_def addItem_def insertOrIncrement_def equipItem_def equipRow_def
        unequipSlot_def realm_def)
  show ?thesis using a b c d h by simp
qed

section \<open>Properties of the theft handlers\<close>

text \<open>
  Looking a row up after the rows of one item were replaced by a new row.
\<close>

lemma find_filter_append_same:
  "P x \<Longrightarrow> find P (filter (\<lambda>r. \<not> P r) xs @ [x]) = Some x"
  by (induction xs) auto

lemma find_filter_append_other:
  "\<not> Q x \<Longrightarrow> (\<And>r. Q r \<Longrightarrow> P r) \<Longrightarrow> find Q (filter P xs @ [x]) = find Q xs"
  by (induction xs) auto

text \<open>
  Claim C6. A steal whose thief is its victim answers the error and leaves the store as it
  was. A steal between two different characters answers with a record of the item, the victim
  and the thief whose heat level is burning and whose witnesses are the supplied ones (none
  when the field is missing); after it that record is the item's record, the records of other
  items and the fences are as before.
\<close>

theorem handleSteal_contract:
  "(thiefId = victimId \<longrightarrow>
      handleSteal db thiefId victimId item wits loc = (Inl SelfTheft, db))
   \<and> (thiefId \<noteq> victimId \<longrightarrow>
        (\<exists>record db'.
           handleSteal db thiefId victimId item wits loc
             = (Inr \<lparr>steal_record = record, steal_heatLevel = burning,
                     steal_witnesses = length (case wits of None \<Rightarrow> [] | Some ws \<Rightarrow> ws)\<rparr>, db')
           \<and> itemId record = item \<and> stolenFrom record = victimId \<and> stolenBy record = thiefId
           \<and> heatLevel record = burning
           \<and> witnesses record = (case wits of None \<Rightarrow> [] | Some ws \<Rightarrow> ws)
           \<and> getTheftRecord db' item = Some record
           \<and> (\<forall>other. other \<noteq> item \<longrightarrow> getTheftRecord db' other = getTheftRecord db other)
           \<and> fences db' = fences db))"
proof (intro conjI impI)
  assume "thiefId = victimId"
  then show "handleSteal db thiefId victimId item wits loc = (Inl SelfTheft, db)"
    by (simp add: handleSteal_def)
next
  assume ne: "thiefId \<noteq> victimId"
  let ?ws = "case wits of None \<Rightarrow> [] | Some ws \<Rightarrow> ws"
  let ?rec = "\<lparr>itemId = item, stolenFrom = victimId, stolenBy = thiefId,
               stolenLocation = loc, witnesses = ?ws, heatLevel = burning,
               reportedToGuards = False, bounty = 0\<rparr>"
  let ?db' = "db\<lparr>theft_records := filter (\<lambda>r. itemId r \<noteq> item) (theft_records db) @ [?rec]\<rparr>"
  have run: "handleSteal db thiefId victimId item wits loc
             = (Inr \<lparr>steal_record = ?rec, steal_heatLevel = burning,
                     steal_witnesses = length ?ws\<rparr>, ?db')"
    using ne by (simp add: handleSteal_def recordTheft_def Let_def)
  have same: "getTheftRecord ?db' item = Some ?rec"
    using find_filter_append_same [of "\<lambda>r. itemId r = item" ?rec "theft_records db"]
    by (simp add: getTheftRecord_def)
  have other: "\<forall>other. other \<noteq> item \<longrightarrow> getTheftRecord ?db' other = getTheftRecord db other"
  proof (intro allI impI)
    fix other :: string assume "other \<noteq> item"
    then show "getTheftRecord ?db' other = getTheftRecord db other"
      using find_filter_append_other
              [of "\<lambda>r. itemId r = other" ?rec "\<lambda>r. itemId r \<noteq> item" "theft_records db"]
      by (simp add: getTheftRecord_def)
  qed
  show "\<exists>record db'.
           handleSteal db thiefId victimId item wits loc
             = (Inr \<lparr>steal_record = record, steal_heatLevel = burning,
                     steal_witnesses = length (case wits of None \<Rightarrow> [] | Some ws \<Rightarrow> ws)\<rparr>, db')
           \<and> itemId record = item \<and> stolenFrom record = victimId \<and> stolenBy record = thiefId
           \<and> heatLevel record = burning
           \<and> witnesses record = (case wits of None \<Rightarrow> [] | Some ws \<Rightarrow> ws)
           \<and> getTheftRecord db' item = Some record
           \<and> (\<forall>other. other \<noteq> item \<longrightarrow> getTheftRecord db' other = getTheftRecord db other)
           \<and> fences db' = fences db"
    apply (rule exI [of _ ?rec])
    apply (rule exI [of _ ?db'])
    using run same other by simp
qed

text \<open>
  Witness of C6: anna cannot steal from anna; the rogue steals the merchant's ring before a guard.
\<close>

theorem handleSteal_contract_witness:
  "handleSteal empty_theft_store ''anna'' ''anna'' ''x'' None None = (Inl SelfTheft, empty_theft_store)
   \<and> map heatLevel (theft_records (snd (handleSteal empty_theft_store ''rogue'' ''merchant'' ''ring'' (Some [''guard'']) None)))
       = [burning]
   \<and> map witnesses (theft_records (snd (handleSteal empty_theft_store ''rogue'' ''merchant'' ''ring'' (Some [''guard'']) None)))
       = [[''guard'']]"
proof -
  have a: "handleSteal empty_theft_store ''anna'' ''anna'' ''x'' None None = (Inl SelfTheft, empty_theft_store)"
    using handleSteal_contract [of "''anna''" "''anna''" empty_theft_store "''x''" None None] by simp
  have b: "theft_records (snd (handleSteal empty_theft_store ''rogue'' ''merchant'' ''ring'' (Some [''guard'']) None))
           = [\<lparr>itemId = ''ring'', stolenFrom = ''merchant'', stolenBy = ''rogue'',
               stolenLocation = None, witnesses = [''guard''], heatLevel = burning,
               reportedToGuards = False, bounty = 0\<rparr>]"
    by (simp add: handleSteal_def recordTheft_def empty_theft_store_def Let_def)
  show ?thesis using a b by simp
qed

text \<open>
  Claim C5, as amended. When the NPC is the victim of at least one theft record, register_fence
  answers the error (with the number of records) and leaves the store as it was. When it is
  the victim of none, the fence is stored under the NPC's id and nothing else changes. So a
  registration never makes an NPC both a fence and a victim: a store in which no fence is a
  victim is such a store after the call.
\<close>

theorem handleRegisterFence_guard:
  "((\<exists>r \<in> set (theft_records db). stolenFrom r = who) \<longrightarrow>
      (\<exists>n. n > 0 \<and> handleRegisterFence db who faction rate maxHeat capacity specs cooldown
             = (Inl (VictimAsFence who n), db)))
   \<and> (\<not> (\<exists>r \<in> set (theft_records db). stolenFrom r = who) \<longrightarrow>
        (\<exists>fence db'.
           handleRegisterFence db who faction rate maxHeat capacity specs cooldown = (Inr fence, db')
           \<and> npcId fence = who \<and> fences db' who = Some fence
           \<and> (\<forall>other. other \<noteq> who \<longrightarrow> fences db' other = fences db other)
           \<and> theft_records db' = theft_records db))
   \<and> (no_fence_is_victim db \<longrightarrow>
        no_fence_is_victim (snd (handleRegisterFence db who faction rate maxHeat capacity specs cooldown)))"
proof (intro conjI impI)
  assume v: "\<exists>r \<in> set (theft_records db). stolenFrom r = who"
  then have "filter (\<lambda>r. stolenFrom r = who) (theft_records db) \<noteq> []"
    by (auto simp: filter_empty_conv)
  then have pos: "length (getItemsStolenFrom db who) > 0"
    by (simp add: getItemsStolenFrom_def)
  then have "handleRegisterFence db who faction rate maxHeat capacity specs cooldown
        = (Inl (VictimAsFence who (length (getItemsStolenFrom db who))), db)"
    by (simp add: handleRegisterFence_def Let_def)
  with pos show "\<exists>n. n > 0 \<and> handleRegisterFence db who faction rate maxHeat capacity specs cooldown
             = (Inl (VictimAsFence who n), db)"
    by blast
next
  assume nv: "\<not> (\<exists>r \<in> set (theft_records db). stolenFrom r = who)"
  then have "filter (\<lambda>r. stolenFrom r = who) (theft_records db) = []"
    by (auto simp: filter_empty_conv)
  then have z: "getItemsStolenFrom db who = []"
    by (simp add: getItemsStolenFrom_def)
  show "\<exists>fence db'.
           handleRegisterFence db who faction rate maxHeat capacity specs cooldown = (Inr fence, db')
           \<and> npcId fence = who \<and> fences db' who = Some fence
           \<and> (\<forall>other. other \<noteq> who \<longrightarrow> fences db' other = fences db other)
           \<and> theft_records db' = theft_records db"
    using z by (simp add: handleRegisterFence_def registerFence_def Let_def)
next
  assume inv: "no_fence_is_victim db"
  show "no_fence_is_victim (snd (handleRegisterFence db who faction rate maxHeat capacity specs cooldown))"
  proof (cases "getItemsStolenFrom db who = []")
    case False
    then show ?thesis using inv by (simp add: handleRegisterFence_def Let_def)
  next
    case True
    then have free: "\<forall>r \<in> set (theft_records db). stolenFrom r \<noteq> who"
      by (auto simp: getItemsStolenFrom_def filter_empty_conv)
    show ?thesis
      using True inv free
      by (auto simp: handleRegisterFence_def registerFence_def Let_def no_fence_is_victim_def)
  qed
qed

lemma fence_then_steal_eval:
  "theft_records fence_then_steal
     = [\<lparr>itemId = ''ring'', stolenFrom = ''merchant'', stolenBy = ''rogue'',
         stolenLocation = None, witnesses = [], heatLevel = burning,
         reportedToGuards = False, bounty = 0\<rparr>]"
  "fences fence_then_steal ''merchant''
     = Some \<lparr>npcId = ''merchant'', factionId = None, buyRate = 4 / 10, maxHeatLevel = hot,
             dailyHeatCapacity = 100, dailyHeatUsed = 0, specializations = [],
             cooldownDays = 7\<rparr>"
  by (simp_all add: fence_then_steal_def handleSteal_def recordTheft_def handleRegisterFence_def
        registerFence_def getItemsStolenFrom_def empty_theft_store_def Let_def)

text \<open>
  Counterexample to C5 as stated: the merchant is registered as a fence while no theft is
  recorded, then the rogue steals the merchant's ring. Both calls succeed (steal checks only
  that thief and victim differ), and the merchant is a fence and a theft victim at once.
\<close>

theorem fence_then_victim_counterexample:
  "fences fence_then_steal ''merchant'' \<noteq> None
   \<and> map stolenFrom (theft_records fence_then_steal) = [''merchant'']
   \<and> \<not> no_fence_is_victim fence_then_steal"
  by (simp add: fence_then_steal_eval no_fence_is_victim_def)

text \<open>
  Witness of C5: the robbed merchant is refused, fagin is registered.
\<close>

theorem handleRegisterFence_guard_witness:
  "fst (handleRegisterFence theft_example ''merchant'' None (4 / 10) hot 100 None 7)
     = Inl (VictimAsFence ''merchant'' 1)
   \<and> snd (handleRegisterFence theft_example ''merchant'' None (4 / 10) hot 100 None 7) = theft_example
   \<and> no_fence_is_victim theft_example
   \<and> no_fence_is_victim (snd (handleRegisterFence theft_example ''fagin'' None (4 / 10) hot 100 None 7))
   \<and> fences (snd (handleRegisterFence theft_example ''fagin'' None (4 / 10) hot 100 None 7)) ''fagin'' \<noteq> None"
proof -
  have inv: "no_fence_is_victim theft_example"
    by (simp add: no_fence_is_victim_def theft_example_def)
  have a: "no_fence_is_victim (snd (handleRegisterFence theft_example ''fagin'' None (4 / 10) hot 100 None 7))"
    using handleRegisterFence_guard [of theft_example "''fagin''" None "4 / 10" hot 100 None 7] inv
    by blast
  have b: "handleRegisterFence theft_example ''merchant'' None (4 / 10) hot 100 None 7
           = (Inl (VictimAsFence ''merchant'' 1), theft_example)"
    by (simp add: handleRegisterFence_def getItemsStolenFrom_def theft_example_def Let_def)
  have c: "fences (snd (handleRegisterFence theft_example ''fagin'' None (4 / 10) hot 100 None 7)) ''fagin'' \<noteq> None"
    by (simp add: handleRegisterFence_def registerFence_def getItemsStolenFrom_def theft_example_def Let_def)
  show ?thesis using inv a b c by simp
qed

text \<open>
  The recognition thresholds of the examples, computed in doubles: a bounty of 50 on a
  burning item gives 85; a bounty of 3 gives \<open>5650610157466419 / 2 ^ 46\<close>, a double just
  below 80.3, since 0.3 is no double.
\<close>

lemma binary64_5: "binary64 5 = 5"
  using binary64_eval [of 2 5] by (simp add: pow2_def roundHalfEven_def)

lemma binary64_50: "binary64 50 = 50"
  using binary64_eval [of 5 50] by (simp add: pow2_def roundHalfEven_def)

lemma binary64_85: "binary64 85 = 85"
  using binary64_eval [of 6 85] by (simp add: pow2_def roundHalfEven_def)

lemma binary64_three_tenths: "binary64 (3 / 10) = 5404319552844595 / 2 ^ 54"
  using binary64_eval [of "- 2" "3 / 10"] by (simp add: pow2_def roundHalfEven_def)

lemma binary64_eighty_and_three_tenths:
  "binary64 (80 + 5404319552844595 / 2 ^ 54) = 5650610157466419 / 2 ^ 46"
  using binary64_eval [of 6 "80 + 5404319552844595 / 2 ^ 54"]
  by (simp add: pow2_def roundHalfEven_def)

lemma threshold_ring: "binary64 (80 + binary64 (binary64 50 / 10)) = 85"
proof -
  have "binary64 50 / 10 = (5 :: real)" by (simp add: binary64_50)
  then have "binary64 (binary64 50 / 10) = 5" by (simp only: binary64_5)
  then have "80 + binary64 (binary64 50 / 10) = (85 :: real)" by simp
  then show ?thesis by (simp only: binary64_85)
qed

lemma threshold_cloak: "binary64 (80 + binary64 (binary64 3 / 10)) = 5650610157466419 / 2 ^ 46"
  by (simp only: binary64_3 binary64_three_tenths binary64_eighty_and_three_tenths)

text \<open>
  Claim C7. For a stolen item (one with a theft record): the victim recognises it and is
  hostile, whatever the roll; otherwise a witness recognises it and is suspicious, whatever
  the roll; otherwise the item is recognised exactly when the roll is strictly below the
  threshold \<^verbatim>\<open>Math.min(100, heat + bounty / 10)\<close> as the handler computes it, in doubles:
  the quotient rounded, then the sum rounded. A roll equal to that threshold is not
  recognised. The result reports the floors of the roll and of the threshold.
\<close>

theorem handleRecognize_order:
  assumes "getTheftRecord db item = Some record"
  shows
    "(who = stolenFrom record \<longrightarrow>
        handleRecognize heat pct db who item
          = \<lparr>recognized = True, isStolen = True, recognizedBy = Some original_owner,
             reaction = Some hostile, roll_floor = None, threshold_floor = None\<rparr>)
     \<and> (who \<noteq> stolenFrom record \<and> who \<in> set (witnesses record) \<longrightarrow>
          handleRecognize heat pct db who item
            = \<lparr>recognized = True, isStolen = True, recognizedBy = Some witness,
               reaction = Some suspicious, roll_floor = None, threshold_floor = None\<rparr>)
     \<and> (who \<noteq> stolenFrom record \<and> who \<notin> set (witnesses record) \<longrightarrow>
          (recognized (handleRecognize heat pct db who item)
             \<longleftrightarrow> pct < min 100 (binary64 (heat (heatLevel record)
                                    + binary64 (binary64 (real_of_int (bounty record)) / 10))))
          \<and> roll_floor (handleRecognize heat pct db who item) = Some \<lfloor>pct\<rfloor>
          \<and> threshold_floor (handleRecognize heat pct db who item)
              = Some \<lfloor>min 100 (binary64 (heat (heatLevel record)
                                   + binary64 (binary64 (real_of_int (bounty record)) / 10)))\<rfloor>
          \<and> (pct = min 100 (binary64 (heat (heatLevel record)
                                + binary64 (binary64 (real_of_int (bounty record)) / 10)))
               \<longrightarrow> \<not> recognized (handleRecognize heat pct db who item)))"
proof -
  define t where "t = min 100 (binary64 (heat (heatLevel record)
                                + binary64 (binary64 (real_of_int (bounty record)) / 10)))"
  have c: "recognitionChance heat record = t"
    by (simp only: recognitionChance_def t_def)
  have "(who = stolenFrom record \<longrightarrow>
        handleRecognize heat pct db who item
          = \<lparr>recognized = True, isStolen = True, recognizedBy = Some original_owner,
             reaction = Some hostile, roll_floor = None, threshold_floor = None\<rparr>)
     \<and> (who \<noteq> stolenFrom record \<and> who \<in> set (witnesses record) \<longrightarrow>
          handleRecognize heat pct db who item
            = \<lparr>recognized = True, isStolen = True, recognizedBy = Some witness,
               reaction = Some suspicious, roll_floor = None, threshold_floor = None\<rparr>)
     \<and> (who \<noteq> stolenFrom record \<and> who \<notin> set (witnesses record) \<longrightarrow>
          (recognized (handleRecognize heat pct db who item) \<longleftrightarrow> pct < t)
          \<and> roll_floor (handleRecognize heat pct db who item) = Some \<lfloor>pct\<rfloor>
          \<and> threshold_floor (handleRecognize heat pct db who item) = Some \<lfloor>t\<rfloor>
          \<and> (pct = t \<longrightarrow> \<not> recognized (handleRecognize heat pct db who item)))"
    using assms by (simp add: handleRecognize_def c)
  then show ?thesis unfolding t_def .
qed

text \<open>
  Witness of C7: the ring is burning (80) with a bounty of 50, so the threshold is 85. The
  merchant is hostile, the guard suspicious, a stranger recognises it at a roll of 84 and not
  at a roll of 85. The cloak is burning with a bounty of 3: a stranger does not recognise it
  at the roll \<open>5650610157466419 / 2 ^ 46\<close>, which is the threshold in doubles and lies below
  80.3, and recognises it at the next smaller double.
\<close>

theorem handleRecognize_order_witness:
  "getTheftRecord theft_example ''ring'' \<noteq> None
   \<and> reaction (handleRecognize HEAT_VALUES 10 theft_example ''merchant'' ''ring'') = Some hostile
   \<and> reaction (handleRecognize HEAT_VALUES 99 theft_example ''guard'' ''ring'') = Some suspicious
   \<and> recognized (handleRecognize HEAT_VALUES 84 theft_example ''stranger'' ''ring'')
   \<and> \<not> recognized (handleRecognize HEAT_VALUES 85 theft_example ''stranger'' ''ring'')
   \<and> getTheftRecord petty_theft ''cloak'' \<noteq> None
   \<and> \<not> recognized (handleRecognize HEAT_VALUES (5650610157466419 / 2 ^ 46) petty_theft ''stranger'' ''cloak'')
   \<and> recognized (handleRecognize HEAT_VALUES (5650610157466418 / 2 ^ 46) petty_theft ''stranger'' ''cloak'')
   \<and> threshold_floor (handleRecognize HEAT_VALUES 0 petty_theft ''stranger'' ''cloak'') = Some 80
   \<and> 5650610157466419 / 2 ^ 46 < (80 + 3 / 10 :: real)"
proof -
  have g: "getTheftRecord theft_example ''ring''
           = Some \<lparr>itemId = ''ring'', stolenFrom = ''merchant'', stolenBy = ''rogue'',
                   stolenLocation = None, witnesses = [''guard''], heatLevel = burning,
                   reportedToGuards = True, bounty = 50\<rparr>"
    by (simp add: getTheftRecord_def theft_example_def)
  have h: "getTheftRecord petty_theft ''cloak''
           = Some \<lparr>itemId = ''cloak'', stolenFrom = ''tailor'', stolenBy = ''rogue'',
                   stolenLocation = None, witnesses = [], heatLevel = burning,
                   reportedToGuards = False, bounty = 3\<rparr>"
    by (simp add: getTheftRecord_def petty_theft_def)
  have ring: "reaction (handleRecognize HEAT_VALUES 10 theft_example ''merchant'' ''ring'') = Some hostile
   \<and> reaction (handleRecognize HEAT_VALUES 99 theft_example ''guard'' ''ring'') = Some suspicious
   \<and> recognized (handleRecognize HEAT_VALUES 84 theft_example ''stranger'' ''ring'')
   \<and> \<not> recognized (handleRecognize HEAT_VALUES 85 theft_example ''stranger'' ''ring'')"
    using handleRecognize_order [OF g, of "''merchant''" HEAT_VALUES 10]
          handleRecognize_order [OF g, of "''guard''" HEAT_VALUES 99]
          handleRecognize_order [OF g, of "''stranger''" HEAT_VALUES 84]
          handleRecognize_order [OF g, of "''stranger''" HEAT_VALUES 85]
    by (simp add: threshold_ring)
  have cloak: "\<not> recognized (handleRecognize HEAT_VALUES (5650610157466419 / 2 ^ 46) petty_theft ''stranger'' ''cloak'')
   \<and> recognized (handleRecognize HEAT_VALUES (5650610157466418 / 2 ^ 46) petty_theft ''stranger'' ''cloak'')
   \<and> threshold_floor (handleRecognize HEAT_VALUES 0 petty_theft ''stranger'' ''cloak'') = Some 80"
    using handleRecognize_order [OF h, of "''stranger''" HEAT_VALUES "5650610157466419 / 2 ^ 46"]
          handleRecognize_order [OF h, of "''stranger''" HEAT_VALUES "5650610157466418 / 2 ^ 46"]
          handleRecognize_order [OF h, of "''stranger''" HEAT_VALUES 0]
    by (simp add: threshold_cloak)
  have lt: "5650610157466419 / 2 ^ 46 < (80 + 3 / 10 :: real)" by simp
  show ?thesis using g h ring cloak lt by simp
qed

section \<open>Properties of the combat handlers\<close>

text \<open>
  The table of characters after the loop: a character whose id no participant carries is as
  before, the others have the hit points of the last participant that carries their id; no
  character is created.
\<close>

lemma find_append_split:
  "find P (xs @ ys) = (case find P xs of None \<Rightarrow> find P ys | Some x \<Rightarrow> Some x)"
  by (induction xs) auto

lemma lastWithId_Cons:
  "lastWithId (p # ps) cid =
     (case lastWithId ps cid of
        Some q \<Rightarrow> Some q
      | None \<Rightarrow> if p_id p = cid then Some p else None)"
  by (simp add: lastWithId_def find_append_split split: option.splits)

lemma lastWithId_Nil: "lastWithId [] cid = None"
  by (simp add: lastWithId_def)

lemma syncParticipants_chars:
  "snd (syncParticipants ps chars) cid =
     (case chars cid of
        None \<Rightarrow> None
      | Some c \<Rightarrow>
          (case lastWithId ps cid of
             None \<Rightarrow> Some c
           | Some q \<Rightarrow> Some (c\<lparr>hp := p_hp q\<rparr>)))"
proof (induction ps arbitrary: chars)
  case Nil
  then show ?case by (simp add: lastWithId_Nil split: option.splits)
next
  case (Cons p ps)
  show ?case
  proof (cases "chars (p_id p)")
    case None
    then have "snd (syncParticipants (p # ps) chars) cid = snd (syncParticipants ps chars) cid"
      by (simp add: findById_def split: prod.splits)
    then show ?thesis
      using Cons.IH [of chars] None
      by (auto simp: lastWithId_Cons split: option.splits)
  next
    case (Some c0)
    let ?chars' = "chars(p_id p \<mapsto> c0\<lparr>hp := p_hp p\<rparr>)"
    have "snd (syncParticipants (p # ps) chars) cid = snd (syncParticipants ps ?chars') cid"
      using Some by (simp add: findById_def updateHp_def split: prod.splits)
    then show ?thesis
      using Cons.IH [of ?chars'] Some
      by (auto simp: lastWithId_Cons split: option.splits)
  qed
qed

lemma lastWithId_Some:
  "lastWithId ps cid = Some q \<Longrightarrow> q \<in> set ps \<and> p_id q = cid"
  unfolding lastWithId_def by (induction ps) (auto simp: find_append_split split: option.splits if_splits)

lemma lastWithId_None:
  "lastWithId ps cid = None \<longleftrightarrow> cid \<notin> p_id ` set ps"
  unfolding lastWithId_def by (auto simp: find_None_iff)

lemma lastWithId_distinct:
  "distinct (map p_id ps) \<Longrightarrow> p \<in> set ps \<Longrightarrow> lastWithId ps (p_id p) = Some p"
proof (induction ps)
  case Nil
  then show ?case by simp
next
  case (Cons a ps)
  show ?case
  proof (cases "p \<in> set ps")
    case True
    then have "lastWithId ps (p_id p) = Some p" using Cons by simp
    then show ?thesis by (simp add: lastWithId_Cons)
  next
    case False
    then have pa: "p = a" using Cons.prems by simp
    have "p_id a \<notin> p_id ` set ps" using Cons.prems by simp
    then have "lastWithId ps (p_id a) = None" by (simp add: lastWithId_None)
    then show ?thesis using pa by (simp add: lastWithId_Cons)
  qed
qed

text \<open>
  Claim C1, as amended. end_encounter on an encounter that the session's manager holds, with
  final state \<open>finalState\<close>, answers with the synced characters and removes the engine. For
  every participant whose id is that of a persisted character, the stored character afterwards
  has the final hit points of the last participant of the list that carries this id, and is
  otherwise as before; when the ids of the participants are distinct these are the hit points
  of the participant itself. A participant whose id matches no character is skipped: no
  character is created for it, and every character that is no participant is untouched.
\<close>

theorem end_encounter_writes_back:
  assumes "manager w (namespacedId sid eid) = Some engine"
    and "getState engine = Some finalState"
    and "handleEndEncounter w sid eid = (res, w')"
  shows
    "(\<exists>listed. res = Inr (eid, listed))
     \<and> manager w' (namespacedId sid eid) = None
     \<and> (\<forall>p \<in> set (participants finalState). \<forall>c. characters w (p_id p) = Some c \<longrightarrow>
           (\<exists>q \<in> set (participants finalState).
              p_id q = p_id p \<and> lastWithId (participants finalState) (p_id p) = Some q
              \<and> characters w' (p_id p) = Some (c\<lparr>hp := p_hp q\<rparr>)))
     \<and> (distinct (map p_id (participants finalState)) \<longrightarrow>
           (\<forall>p \<in> set (participants finalState). \<forall>c. characters w (p_id p) = Some c \<longrightarrow>
              characters w' (p_id p) = Some (c\<lparr>hp := p_hp p\<rparr>)))
     \<and> (\<forall>cid. characters w cid = None \<longrightarrow> characters w' cid = None)
     \<and> (\<forall>cid. cid \<notin> p_id ` set (participants finalState) \<longrightarrow> characters w' cid = characters w cid)
     \<and> encounters w' = encounters w"
proof -
  let ?ps = "participants finalState"
  let ?r = "syncParticipants ?ps (characters w)"
  have run: "res = Inr (eid, filter synced (fst ?r))"
       "w' = w\<lparr>manager := (manager w)(namespacedId sid eid := None), characters := snd ?r\<rparr>"
    using assms by (auto simp: handleEndEncounter_def split: prod.splits)
  have chars: "\<And>cid. characters w' cid =
     (case characters w cid of
        None \<Rightarrow> None
      | Some c \<Rightarrow> (case lastWithId ?ps cid of None \<Rightarrow> Some c | Some q \<Rightarrow> Some (c\<lparr>hp := p_hp q\<rparr>)))"
    using run(2) by (simp add: syncParticipants_chars)
  have a: "\<exists>listed. res = Inr (eid, listed)" using run(1) by blast
  have b: "manager w' (namespacedId sid eid) = None" using run(2) by simp
  have c: "\<forall>p \<in> set ?ps. \<forall>c. characters w (p_id p) = Some c \<longrightarrow>
           (\<exists>q \<in> set ?ps. p_id q = p_id p \<and> lastWithId ?ps (p_id p) = Some q
              \<and> characters w' (p_id p) = Some (c\<lparr>hp := p_hp q\<rparr>))"
  proof (intro ballI allI impI)
    fix p c assume p: "p \<in> set ?ps" and c: "characters w (p_id p) = Some c"
    from p have "lastWithId ?ps (p_id p) \<noteq> None" by (simp add: lastWithId_None)
    then obtain q where q: "lastWithId ?ps (p_id p) = Some q" by blast
    then have "q \<in> set ?ps \<and> p_id q = p_id p" by (rule lastWithId_Some)
    moreover have "characters w' (p_id p) = Some (c\<lparr>hp := p_hp q\<rparr>)"
      using c q by (simp add: chars)
    ultimately show "\<exists>q \<in> set ?ps. p_id q = p_id p \<and> lastWithId ?ps (p_id p) = Some q
              \<and> characters w' (p_id p) = Some (c\<lparr>hp := p_hp q\<rparr>)"
      using q by blast
  qed
  have d: "distinct (map p_id ?ps) \<longrightarrow>
           (\<forall>p \<in> set ?ps. \<forall>c. characters w (p_id p) = Some c \<longrightarrow>
              characters w' (p_id p) = Some (c\<lparr>hp := p_hp p\<rparr>))"
  proof (intro impI ballI allI)
    fix p c assume "distinct (map p_id ?ps)" "p \<in> set ?ps" and c: "characters w (p_id p) = Some c"
    then have "lastWithId ?ps (p_id p) = Some p" by (simp add: lastWithId_distinct)
    then show "characters w' (p_id p) = Some (c\<lparr>hp := p_hp p\<rparr>)" using c by (simp add: chars)
  qed
  have e: "\<forall>cid. characters w cid = None \<longrightarrow> characters w' cid = None"
    by (simp add: chars)
  have f: "\<forall>cid. cid \<notin> p_id ` set ?ps \<longrightarrow> characters w' cid = characters w cid"
  proof (intro allI impI)
    fix cid assume "cid \<notin> p_id ` set ?ps"
    then have "lastWithId ?ps cid = None" by (simp add: lastWithId_None)
    then show "characters w' cid = characters w cid" by (simp add: chars split: option.splits)
  qed
  have g: "encounters w' = encounters w" using run(2) by simp
  show ?thesis using a b c d e f g by blast
qed

text \<open>
  Witness of C1: the hero ends the fight with 17 hit points, which is what the table holds
  afterwards; the goblin is not persisted.
\<close>

theorem end_encounter_writes_back_witness:
  "manager battle_world (namespacedId ''s1'' ''fight'') \<noteq> None
   \<and> map_option hp (characters battle_world ''hero'') = Some 20
   \<and> map_option hp
        (characters (snd (handleEndEncounter battle_world ''s1'' ''fight''
                            :: (unit combat_error + string \<times> SyncResult list) \<times> world)) ''hero'')
       = Some 17
   \<and> characters (snd (handleEndEncounter battle_world ''s1'' ''fight''
                         :: (unit combat_error + string \<times> SyncResult list) \<times> world)) ''goblin''
       = None"
proof -
  let ?run = "handleEndEncounter battle_world ''s1'' ''fight''
                :: (unit combat_error + string \<times> SyncResult list) \<times> world"
  have m: "manager battle_world (namespacedId ''s1'' ''fight'')
           = Some (loadState (newCombatEngine ''battle-1'') battle_state)"
    by (simp add: battle_world_def)
  have s: "getState (loadState (newCombatEngine ''battle-1'') battle_state) = Some battle_state"
    by (simp add: getState_def loadState_def)
  have r: "?run = (fst ?run, snd ?run)" by simp
  have c: "characters battle_world ''hero'' = Some hero_character"
          "characters battle_world ''goblin'' = None"
    by (simp_all add: battle_world_def)
  have h: "hp hero_character = 20" by (simp add: hero_character_def)
  show ?thesis
    using end_encounter_writes_back [OF m s r] c h m
    by (simp add: battle_state_def token_def)
qed

text \<open>
  Counterexample to C1 as stated: two participants carry the id of the persisted hero, with 5
  and with 9 final hit points. The character is written twice and holds 9 afterwards, which
  is not the final hit points of the first participant.
\<close>

theorem end_encounter_duplicate_id_counterexample:
  "token ''hero'' ''Valeros'' 5 20 False \<in> set (participants twin_state)
   \<and> p_id (token ''hero'' ''Valeros'' 5 20 False) = ''hero''
   \<and> p_hp (token ''hero'' ''Valeros'' 5 20 False) = 5
   \<and> characters twin_world ''hero'' \<noteq> None
   \<and> map_option hp
        (characters (snd (handleEndEncounter twin_world ''s1'' ''fight''
                            :: (unit combat_error + string \<times> SyncResult list) \<times> world)) ''hero'')
       = Some 9"
  by (simp add: handleEndEncounter_def twin_world_def twin_state_def token_def getState_def
      loadState_def newCombatEngine_def findById_def updateHp_def hero_character_def)

text \<open>
  Claim C9. When the manager holds no engine under \<^verbatim>\<open>sessionId:encounterId\<close>, end_encounter
  throws the not-found error and changes nothing, whether or not the encounter is persisted.
  With a persisted state, get_encounter_state, execute_combat_action and advance_turn load it
  into a fresh engine, put that engine into the manager and go on as if it had been there:
  none of them throws the not-found error, and the manager holds an engine afterwards.
  What they go on to do is fixed by the loaded state: get_encounter_state answers that state;
  advance_turn advances the engine that holds the loaded state, answers the state after the
  turn and stores and persists that engine, or passes on what the engine throws with the
  loaded engine in the manager; execute_combat_action runs the attack or the heal on the
  engine that holds the loaded state, answers its result and stores and persists the engine
  after it, or throws for missing fields or with the engine, the loaded engine in the manager.
\<close>

theorem end_encounter_needs_memory:
  assumes "manager w (namespacedId sid eid) = None"
  shows
    "handleEndEncounter w sid eid = (Inl (EncounterNotFound eid), w)
     \<and> (\<forall>st. encounters w eid = Some st \<longrightarrow>
          handleGetEncounterState w sid eid
            = (Inr st, storeEngine w sid eid (loadState (newCombatEngine eid) st))
          \<and> handleExecuteCombatAction executeAttack executeHeal w sid eid args
            = handleExecuteCombatAction executeAttack executeHeal
                (storeEngine w sid eid (loadState (newCombatEngine eid) st)) sid eid args
          \<and> fst (handleExecuteCombatAction executeAttack executeHeal w sid eid args)
               \<noteq> Inl (EncounterNotFound eid)
          \<and> manager (snd (handleExecuteCombatAction executeAttack executeHeal w sid eid args))
               (namespacedId sid eid) \<noteq> None
          \<and> handleAdvanceTurn nextTurn w sid eid
            = handleAdvanceTurn nextTurn
                (storeEngine w sid eid (loadState (newCombatEngine eid) st)) sid eid
          \<and> fst (handleAdvanceTurn nextTurn w sid eid) \<noteq> Inl (EncounterNotFound eid)
          \<and> manager (snd (handleAdvanceTurn nextTurn w sid eid)) (namespacedId sid eid) \<noteq> None
          \<and> handleAdvanceTurn nextTurn w sid eid
            = (case nextTurn (loadState (newCombatEngine eid) st) of
                 Inl x \<Rightarrow>
                   (Inl (EngineError x), storeEngine w sid eid (loadState (newCombatEngine eid) st))
               | Inr engine' \<Rightarrow>
                   (Inr (getState engine'),
                    saveEngineState
                      (storeEngine (storeEngine w sid eid (loadState (newCombatEngine eid) st))
                         sid eid engine')
                      eid engine'))
          \<and> handleExecuteCombatAction executeAttack executeHeal w sid eid args
            = (case action args of
                 attack \<Rightarrow>
                   (case attackBonus args of
                      None \<Rightarrow>
                        (Inl AttackFieldsMissing,
                         storeEngine w sid eid (loadState (newCombatEngine eid) st))
                    | Some b \<Rightarrow>
                        (case dc args of
                           None \<Rightarrow>
                             (Inl AttackFieldsMissing,
                              storeEngine w sid eid (loadState (newCombatEngine eid) st))
                         | Some d \<Rightarrow>
                             (case damage args of
                                None \<Rightarrow>
                                  (Inl AttackFieldsMissing,
                                   storeEngine w sid eid (loadState (newCombatEngine eid) st))
                              | Some dmg \<Rightarrow>
                                  (case executeAttack (loadState (newCombatEngine eid) st)
                                          (actorId args) (targetId args) b d dmg of
                                     Inl x \<Rightarrow>
                                       (Inl (EngineError x),
                                        storeEngine w sid eid (loadState (newCombatEngine eid) st))
                                   | Inr (result, engine') \<Rightarrow>
                                       (Inr result,
                                        saveEngineState
                                          (storeEngine
                                             (storeEngine w sid eid (loadState (newCombatEngine eid) st))
                                             sid eid engine')
                                          eid engine')))))
               | heal \<Rightarrow>
                   (case amount args of
                      None \<Rightarrow>
                        (Inl HealAmountMissing,
                         storeEngine w sid eid (loadState (newCombatEngine eid) st))
                    | Some a \<Rightarrow>
                        (case executeHeal (loadState (newCombatEngine eid) st)
                                (actorId args) (targetId args) a of
                           Inl x \<Rightarrow>
                             (Inl (EngineError x),
                              storeEngine w sid eid (loadState (newCombatEngine eid) st))
                         | Inr (result, engine') \<Rightarrow>
                             (Inr result,
                              saveEngineState
                                (storeEngine
                                   (storeEngine w sid eid (loadState (newCombatEngine eid) st))
                                   sid eid engine')
                                eid engine')))))"
proof (intro conjI allI impI)
  show "handleEndEncounter w sid eid = (Inl (EncounterNotFound eid), w)"
    using assms by (simp add: handleEndEncounter_def)
next
  fix st assume st: "encounters w eid = Some st"
  let ?e = "loadState (newCombatEngine eid) st"
  let ?w = "storeEngine w sid eid ?e"
  have al: "autoLoad w sid eid = (Inr ?e, ?w)"
    using assms st by (simp add: autoLoad_def storeEngine_def Let_def)
  have al': "autoLoad ?w sid eid = (Inr ?e, ?w)"
    by (simp add: autoLoad_def storeEngine_def)
  show "handleGetEncounterState w sid eid = (Inr st, ?w)"
    by (simp add: handleGetEncounterState_def al getState_def loadState_def)
  show ex: "handleExecuteCombatAction executeAttack executeHeal w sid eid args
            = handleExecuteCombatAction executeAttack executeHeal ?w sid eid args"
    by (simp add: handleExecuteCombatAction_def al al')
  have mw: "manager ?w (namespacedId sid eid) \<noteq> None" by (simp add: storeEngine_def)
  have keep: "\<And>e'. manager (saveEngineState (storeEngine ?w sid eid e') eid e') (namespacedId sid eid) \<noteq> None"
    by (simp add: saveEngineState_def storeEngine_def split: option.splits)
  show "fst (handleExecuteCombatAction executeAttack executeHeal w sid eid args)
               \<noteq> Inl (EncounterNotFound eid)"
    by (simp add: handleExecuteCombatAction_def al
        split: CombatAction.splits option.splits sum.splits prod.splits)
  show "manager (snd (handleExecuteCombatAction executeAttack executeHeal w sid eid args))
               (namespacedId sid eid) \<noteq> None"
    using mw keep
    by (simp add: handleExecuteCombatAction_def al
        split: CombatAction.splits option.splits sum.splits prod.splits)
  show "handleAdvanceTurn nextTurn w sid eid = handleAdvanceTurn nextTurn ?w sid eid"
    by (simp add: handleAdvanceTurn_def al al')
  show "fst (handleAdvanceTurn nextTurn w sid eid) \<noteq> Inl (EncounterNotFound eid)"
    by (simp add: handleAdvanceTurn_def al split: sum.splits)
  show "manager (snd (handleAdvanceTurn nextTurn w sid eid)) (namespacedId sid eid) \<noteq> None"
    using mw keep by (simp add: handleAdvanceTurn_def al split: sum.splits)
  show "handleAdvanceTurn nextTurn w sid eid
            = (case nextTurn ?e of
                 Inl x \<Rightarrow> (Inl (EngineError x), ?w)
               | Inr engine' \<Rightarrow>
                   (Inr (getState engine'),
                    saveEngineState (storeEngine ?w sid eid engine') eid engine'))"
    by (simp add: handleAdvanceTurn_def al)
  show "handleExecuteCombatAction executeAttack executeHeal w sid eid args
            = (case action args of
                 attack \<Rightarrow>
                   (case attackBonus args of
                      None \<Rightarrow> (Inl AttackFieldsMissing, ?w)
                    | Some b \<Rightarrow>
                        (case dc args of
                           None \<Rightarrow> (Inl AttackFieldsMissing, ?w)
                         | Some d \<Rightarrow>
                             (case damage args of
                                None \<Rightarrow> (Inl AttackFieldsMissing, ?w)
                              | Some dmg \<Rightarrow>
                                  (case executeAttack ?e (actorId args) (targetId args) b d dmg of
                                     Inl x \<Rightarrow> (Inl (EngineError x), ?w)
                                   | Inr (result, engine') \<Rightarrow>
                                       (Inr result,
                                        saveEngineState (storeEngine ?w sid eid engine') eid engine')))))
               | heal \<Rightarrow>
                   (case amount args of
                      None \<Rightarrow> (Inl HealAmountMissing, ?w)
                    | Some a \<Rightarrow>
                        (case executeHeal ?e (actorId args) (targetId args) a of
                           Inl x \<Rightarrow> (Inl (EngineError x), ?w)
                         | Inr (result, engine') \<Rightarrow>
                             (Inr result,
                              saveEngineState (storeEngine ?w sid eid engine') eid engine'))))"
    by (simp add: handleExecuteCombatAction_def al split: CombatAction.splits option.splits)
qed

text \<open>
  Witness of C9: the fight of session s1 is persisted; session s2 cannot end it, but reads it
  and advances it. With an engine whose turn moves to the second participant, advance_turn of
  session s2 answers the persisted state with the turn index 1 and persists it.
\<close>

theorem end_encounter_needs_memory_witness:
  "manager battle_world (namespacedId ''s2'' ''fight'') = None
   \<and> encounters battle_world ''fight'' = Some battle_state
   \<and> (handleEndEncounter battle_world ''s2'' ''fight''
        :: (unit combat_error + string \<times> SyncResult list) \<times> world)
       = (Inl (EncounterNotFound ''fight''), battle_world)
   \<and> fst (handleGetEncounterState battle_world ''s2'' ''fight''
             :: (unit combat_error + CombatState) \<times> world) = Inr battle_state
   \<and> manager (snd (handleAdvanceTurn (\<lambda>e. Inr e :: unit + CombatEngine) battle_world ''s2'' ''fight''))
        (namespacedId ''s2'' ''fight'') \<noteq> None
   \<and> fst (handleAdvanceTurn secondTurn battle_world ''s2'' ''fight'')
       = Inr (Some (battle_state\<lparr>currentTurnIndex := 1\<rparr>))
   \<and> encounters (snd (handleAdvanceTurn secondTurn battle_world ''s2'' ''fight'')) ''fight''
       = Some (battle_state\<lparr>currentTurnIndex := 1\<rparr>)"
proof -
  have m: "manager battle_world (namespacedId ''s2'' ''fight'') = None"
    by (simp add: battle_world_def namespacedId_def)
  have e: "encounters battle_world ''fight'' = Some battle_state"
    by (simp add: battle_world_def)
  note T = end_encounter_needs_memory [OF m]
  note U = T [THEN conjunct2, rule_format, OF e]
  have a: "(handleEndEncounter battle_world ''s2'' ''fight''
        :: (unit combat_error + string \<times> SyncResult list) \<times> world)
       = (Inl (EncounterNotFound ''fight''), battle_world)"
    by (rule T [THEN conjunct1])
  have b: "(handleGetEncounterState battle_world ''s2'' ''fight''
             :: (unit combat_error + CombatState) \<times> world)
           = (Inr battle_state,
              storeEngine battle_world ''s2'' ''fight'' (loadState (newCombatEngine ''fight'') battle_state))"
    by (rule U [THEN conjunct1])
  have c: "manager (snd (handleAdvanceTurn (\<lambda>e. Inr e :: unit + CombatEngine) battle_world ''s2'' ''fight''))
        (namespacedId ''s2'' ''fight'') \<noteq> None"
    by (rule U [THEN conjunct2, THEN conjunct2, THEN conjunct2, THEN conjunct2, THEN conjunct2,
                THEN conjunct2, THEN conjunct1])
  have d: "fst (handleAdvanceTurn secondTurn battle_world ''s2'' ''fight'')
             = Inr (Some (battle_state\<lparr>currentTurnIndex := 1\<rparr>))
           \<and> encounters (snd (handleAdvanceTurn secondTurn battle_world ''s2'' ''fight'')) ''fight''
             = Some (battle_state\<lparr>currentTurnIndex := 1\<rparr>)"
    using U [THEN conjunct2, THEN conjunct2, THEN conjunct2, THEN conjunct2, THEN conjunct2,
             THEN conjunct2, THEN conjunct2, THEN conjunct1, of secondTurn]
    by (simp add: secondTurn_def loadState_def newCombatEngine_def getState_def
        saveEngineState_def storeEngine_def)
  show ?thesis using m e a b c d by simp
qed

section \<open>Properties of advance_durations\<close>

text \<open>
  What the schema does with the field \<^verbatim>\<open>rounds\<close>: below 1 it is an issue, and an accepted
  input has at least one round.
\<close>

lemma schema_rejects:
  assumes "in_rounds raw = Some r" and "r < 1"
  shows "\<exists>issues. ''rounds'' \<in> set issues \<and> AdvanceDurationsSchema raw = Inl (ValidationError issues)"
proof -
  define issues where "issues =
     (case in_targetId raw of None \<Rightarrow> [''targetId''] | Some _ \<Rightarrow> [])
      @ (case in_targetType raw of
           None \<Rightarrow> [''targetType'']
         | Some t \<Rightarrow> (case parseActorType t of None \<Rightarrow> [''targetType''] | Some _ \<Rightarrow> []))
      @ (case in_rounds raw of None \<Rightarrow> [] | Some r \<Rightarrow> if r < 1 then [''rounds''] else [])"
  have mem: "''rounds'' \<in> set issues" using assms by (simp add: issues_def)
  then have ne: "issues \<noteq> []" by auto
  have "AdvanceDurationsSchema raw =
          (case (in_targetId raw, Option.bind (in_targetType raw) parseActorType) of
             (Some tid, Some ty) \<Rightarrow>
               if issues = []
               then Inr \<lparr>ad_targetId = tid, ad_targetType = ty,
                         rounds = (case in_rounds raw of None \<Rightarrow> 1 | Some r \<Rightarrow> r)\<rparr>
               else Inl (ValidationError issues)
           | _ \<Rightarrow> Inl (ValidationError issues))"
    unfolding AdvanceDurationsSchema_def issues_def Let_def by (rule refl)
  then have "AdvanceDurationsSchema raw = Inl (ValidationError issues)"
    using ne by (simp split: prod.splits option.splits)
  with mem show ?thesis by blast
qed

lemma schema_accepts:
  assumes "AdvanceDurationsSchema raw = Inr args"
  shows "1 \<le> rounds args \<and> in_rounds raw \<noteq> Some 0"
proof -
  define issues where "issues =
     (case in_targetId raw of None \<Rightarrow> [''targetId''] | Some _ \<Rightarrow> [])
      @ (case in_targetType raw of
           None \<Rightarrow> [''targetType'']
         | Some t \<Rightarrow> (case parseActorType t of None \<Rightarrow> [''targetType''] | Some _ \<Rightarrow> []))
      @ (case in_rounds raw of None \<Rightarrow> [] | Some r \<Rightarrow> if r < 1 then [''rounds''] else [])"
  have unf: "AdvanceDurationsSchema raw =
          (case (in_targetId raw, Option.bind (in_targetType raw) parseActorType) of
             (Some tid, Some ty) \<Rightarrow>
               if issues = []
               then Inr \<lparr>ad_targetId = tid, ad_targetType = ty,
                         rounds = (case in_rounds raw of None \<Rightarrow> 1 | Some r \<Rightarrow> r)\<rparr>
               else Inl (ValidationError issues)
           | _ \<Rightarrow> Inl (ValidationError issues))"
    unfolding AdvanceDurationsSchema_def issues_def Let_def by (rule refl)
  have emp: "issues = []" and r: "rounds args = (case in_rounds raw of None \<Rightarrow> 1 | Some r \<Rightarrow> r)"
    using assms unfolding unf by (auto split: prod.splits option.splits if_splits)
  from emp have tail: "(case in_rounds raw of None \<Rightarrow> [] | Some r \<Rightarrow> if r < 1 then [''rounds''] else []) = []"
    unfolding issues_def by simp
  show ?thesis
  proof (cases "in_rounds raw")
    case None
    then show ?thesis using r by simp
  next
    case (Some x)
    then have "\<not> x < 1" using tail by (simp split: if_splits)
    then show ?thesis using r Some by simp
  qed
qed

text \<open>
  Counterexample to C3 as stated: the schema of advance_durations does not accept the input
  with \<^verbatim>\<open>rounds = 0\<close>; it refuses it with an issue on the field \<^verbatim>\<open>rounds\<close>.
\<close>

theorem advance_durations_zero_counterexample:
  "AdvanceDurationsSchema rounds_zero = Inl (ValidationError [''rounds''])"
  by (simp add: AdvanceDurationsSchema_def rounds_zero_def parseActorType_def)

text \<open>
  Claim C3, as amended. advance_durations refuses an input whose \<^verbatim>\<open>rounds\<close> is 0, or any
  integer below 1, with a validation error on that field; the handler does not run, so the
  effects are exactly as before the call. Whenever the schema accepts an input, its
  \<^verbatim>\<open>rounds\<close> was not 0, the handler runs with at least one round, and the answer and the
  effects afterwards are the handler's.
\<close>

theorem advance_durations_rejects_zero:
  assumes "in_rounds raw = Some r" and "r < 1"
  shows "(\<exists>issues. ''rounds'' \<in> set issues
            \<and> advance_durations advanceRounds cleanupExpired raw db = (Inl (ValidationError issues), db))
         \<and> (\<forall>raw' args. AdvanceDurationsSchema raw' = Inr args \<longrightarrow>
               1 \<le> rounds args \<and> in_rounds raw' \<noteq> Some 0
               \<and> advance_durations advanceRounds cleanupExpired raw' db
                   = (Inr (fst (handleAdvanceDurations advanceRounds cleanupExpired args db)),
                      snd (handleAdvanceDurations advanceRounds cleanupExpired args db)))"
proof (intro conjI allI impI)
  obtain issues where "''rounds'' \<in> set issues" "AdvanceDurationsSchema raw = Inl (ValidationError issues)"
    using schema_rejects [OF assms] by blast
  then show "\<exists>issues. ''rounds'' \<in> set issues
            \<and> advance_durations advanceRounds cleanupExpired raw db = (Inl (ValidationError issues), db)"
    by (simp add: advance_durations_def)
next
  fix raw' args assume ok: "AdvanceDurationsSchema raw' = Inr args"
  then show "1 \<le> rounds args" using schema_accepts by blast
  from ok show "in_rounds raw' \<noteq> Some 0" using schema_accepts by blast
  from ok show "advance_durations advanceRounds cleanupExpired raw' db
                   = (Inr (fst (handleAdvanceDurations advanceRounds cleanupExpired args db)),
                      snd (handleAdvanceDurations advanceRounds cleanupExpired args db))"
    by (simp add: advance_durations_def split: prod.splits)
qed

text \<open>
  Witness of C3: with \<^verbatim>\<open>rounds = 0\<close> the call is refused and bless keeps its three rounds.
\<close>

theorem advance_durations_rejects_zero_witness:
  "in_rounds rounds_zero = Some 0
   \<and> advance_durations keepEffects cleanNothing rounds_zero [(''bless'', 3)]
       = (Inl (ValidationError [''rounds'']), [(''bless'', 3)])"
proof -
  have a: "in_rounds rounds_zero = Some 0" by (simp add: rounds_zero_def)
  have b: "(0 :: int) < 1" by simp
  have "\<exists>issues. ''rounds'' \<in> set issues
          \<and> advance_durations keepEffects cleanNothing rounds_zero [(''bless'', 3)]
              = (Inl (ValidationError issues), [(''bless'', 3)])"
    by (rule advance_durations_rejects_zero [OF a b, THEN conjunct1])
  then obtain issues where
    run: "advance_durations keepEffects cleanNothing rounds_zero [(''bless'', 3)]
              = (Inl (ValidationError issues), [(''bless'', 3)])"
    by (elim exE conjE)
  have sch: "AdvanceDurationsSchema rounds_zero = Inl (ValidationError [''rounds''])"
    by (simp add: AdvanceDurationsSchema_def rounds_zero_def parseActorType_def)
  have "issues = [''rounds'']"
    using run unfolding advance_durations_def sch by simp
  then show ?thesis using a run by simp
qed

section \<open>Properties of synthesize\<close>

lemma mage_profile: "casterProfile (Some mage) = (5, ''Mira'', [''Evocation Bolt''])"
  by (simp add: casterProfile_def mage_def getAbilityModifier_def)

lemma fizzle_dc: "calculateDc fizzle_args [''Evocation Bolt''] = (10, [(''base'', 10), (''spellLevel'', 2), (''relatedSpell'', - 2)])"
  by (simp add: calculateDc_def fizzle_args_def toLowerCase_def lowerChar_def)

lemma cheap_dc: "calculateDc (fizzle_args\<lparr>materialValue := Some 500\<rparr>) [''Evocation Bolt'']
   = (5, [(''base'', 10), (''spellLevel'', 2), (''relatedSpell'', - 2), (''materialReduction'', - 5)])"
  by (simp add: calculateDc_def fizzle_args_def toLowerCase_def lowerChar_def)

lemma d20_low: "d20 (1 / 50) = 1"
proof -
  have e: "binary64 (2 / 5) = 3602879701896397 / 9007199254740992"
    using binary64_eval [of "- 2" "2 / 5"] by (simp add: pow2_def roundHalfEven_def)
  have f: "\<lfloor>3602879701896397 / 9007199254740992 :: real\<rfloor> = 0" by simp
  have g: "(1 / 50 * 20 :: real) = 2 / 5" by simp
  show ?thesis unfolding d20_def g e f by simp
qed

text \<open>
  The product is rounded before the floor: for the double nearest to 0.85 the exact product is
  below 17, the double product is 17 and the die shows 18.
\<close>

lemma d20_rounds_product:
  "d20 (7656119366529843 / 2 ^ 53) = 18 \<and> \<lfloor>7656119366529843 / 2 ^ 53 * (20 :: real)\<rfloor> + 1 = 17"
proof -
  have "binary64 (7656119366529843 / 2 ^ 53 * 20) = 17"
    using binary64_eval [of 4 "7656119366529843 / 2 ^ 53 * 20"]
    by (simp add: pow2_def roundHalfEven_def)
  then have "d20 (7656119366529843 / 2 ^ 53) = 18" unfolding d20_def by simp
  moreover have "\<lfloor>7656119366529843 / 2 ^ 53 * (20 :: real)\<rfloor> + 1 = 17" by simp
  ultimately show ?thesis by simp
qed

text \<open>
  Claim C2, evaluated at two inputs on which the d20 shows a natural 1 (the generator gives
  0.02). With a difficulty of
  10 the total is 6, the margin is -4, and the outcome is fizzle; with a material component
  worth 500 the difficulty is 5, the total 6 meets it, and the outcome is success. In neither
  case is the wild-surge table rolled: the test for a natural 1 stands after the tests for
  success and fizzle.
\<close>

theorem natural_one_is_not_always_catastrophic:
  "map_sum id (\<lambda>r. (roll r, total_roll r, difficulty r, outcome r, wildSurge r))
     (handleSynthesize ([] :: unit list) (\<lambda>ws. 0) (\<lambda>notation. Inr 0) (\<lambda>k. 1 / 50)
        [''mage'' \<mapsto> mage] fizzle_args)
     = Inr (1, 6, 10, Fizzle, None)
   \<and> map_sum id (\<lambda>r. (roll r, total_roll r, difficulty r, outcome r, wildSurge r))
       (handleSynthesize ([] :: unit list) (\<lambda>ws. 0) (\<lambda>notation. Inr 0) (\<lambda>k. 1 / 50)
          [''mage'' \<mapsto> mage] (fizzle_args\<lparr>materialValue := Some 500\<rparr>))
     = Inr (1, 6, 5, Success, None)"
proof -
  have p: "casterProfile (findById [''mage'' \<mapsto> mage] ''mage'') = (5, ''Mira'', [''Evocation Bolt''])"
    by (simp add: findById_def mage_profile)
  have c1: "classify 1 6 10 = Fizzle" and c2: "classify 1 6 5 = Success"
    by (simp_all add: classify_def)
  have f: "casterId fizzle_args = ''mage''" "effectDice fizzle_args = None"
    "proposedName fizzle_args = Some ''Spark''"
    by (simp_all add: fizzle_args_def)
  show ?thesis
    by (simp add: handleSynthesize_def p f fizzle_dc cheap_dc d20_low c1 c2)
qed

lemma map_of_assign: "map_of (assign k v al) = (map_of al)(k \<mapsto> v)"
  by (induction al) (auto simp: fun_eq_iff)

lemma entry_assign: "entry (assign k v al) k' = (if k' = k then v else entry al k')"
  by (simp add: entry_def map_of_assign)

lemma sum_assign: "breakdownSum (assign k v al) = breakdownSum al + v - entry al k"
  by (induction al) (auto simp: breakdownSum_def entry_def)

lemma gap_assign: "gap (d + v, assign k v al) = gap (d, al) + entry al k"
  by (simp add: gap_def sum_assign)

lemma extra_simps:
  "extra e v 0 = 0"
  "extra e v (Suc n) = e + v * int n"
  "extra v v n = v * int n"
  by (cases n; simp add: extra_def algebra_simps)+

lemma matches_Cons:
  "matches kw1 kw2 (m # ms) =
     (if includes_str (toLowerCase m) kw1 \<or> includes_str (toLowerCase m) kw2
      then Suc (matches kw1 kw2 ms) else matches kw1 kw2 ms)"
  by (simp add: matches_def)

lemma matches_Nil: "matches kw1 kw2 [] = 0"
  by (simp add: matches_def)

lemma step_one:
  "gap (if b then (fst st + v, assign k v (snd st)) else st) = gap st + (if b then entry (snd st) k else 0)"
  "fst (if b then (fst st + v, assign k v (snd st)) else st) = fst st + (if b then v else 0)"
  "entry (snd (if b then (fst st + v, assign k v (snd st)) else st)) k'
     = (if b \<and> k' = k then v else entry (snd st) k')"
  "map_of (snd (if b then (fst st + v, assign k v (snd st)) else st)) k'
     = (if b \<and> k' = k then Some v else map_of (snd st) k')"
  using gap_assign [of "fst st" v k "snd st"]
  by (simp_all add: entry_assign map_of_assign)

lemma applyCircumstance_alt:
  "applyCircumstance m st =
     (let st1 = (if leyMatch m then (fst st + (- 3), assign ''leyLine'' (- 3) (snd st)) else st);
          st2 = (if celestialMatch m then (fst st1 + (- 2), assign ''celestialEvent'' (- 2) (snd st1)) else st1)
      in (if desperationMatch m then (fst st2 + 2, assign ''desperation'' 2 (snd st2)) else st2))"
  by (simp add: applyCircumstance_def leyMatch_def celestialMatch_def desperationMatch_def Let_def)

lemma applyCircumstance_step:
  "gap (applyCircumstance m st) =
     gap st + (if leyMatch m then entry (snd st) ''leyLine'' else 0)
            + (if celestialMatch m then entry (snd st) ''celestialEvent'' else 0)
            + (if desperationMatch m then entry (snd st) ''desperation'' else 0)"
  "fst (applyCircumstance m st) =
     fst st + (if leyMatch m then - 3 else 0) + (if celestialMatch m then - 2 else 0)
            + (if desperationMatch m then 2 else 0)"
  "entry (snd (applyCircumstance m st)) ''leyLine'' = (if leyMatch m then - 3 else entry (snd st) ''leyLine'')"
  "entry (snd (applyCircumstance m st)) ''celestialEvent''
     = (if celestialMatch m then - 2 else entry (snd st) ''celestialEvent'')"
  "entry (snd (applyCircumstance m st)) ''desperation''
     = (if desperationMatch m then 2 else entry (snd st) ''desperation'')"
  "map_of (snd (applyCircumstance m st)) ''leyLine''
     = (if leyMatch m then Some (- 3) else map_of (snd st) ''leyLine'')"
  "map_of (snd (applyCircumstance m st)) ''celestialEvent''
     = (if celestialMatch m then Some (- 2) else map_of (snd st) ''celestialEvent'')"
  "map_of (snd (applyCircumstance m st)) ''desperation''
     = (if desperationMatch m then Some 2 else map_of (snd st) ''desperation'')"
proof -
  define st1 where "st1 = (if leyMatch m then (fst st + (- 3), assign ''leyLine'' (- 3) (snd st)) else st)"
  define st2 where
    "st2 = (if celestialMatch m then (fst st1 + (- 2), assign ''celestialEvent'' (- 2) (snd st1)) else st1)"
  define st3 where
    "st3 = (if desperationMatch m then (fst st2 + 2, assign ''desperation'' 2 (snd st2)) else st2)"
  have eq: "applyCircumstance m st = st3"
    by (simp add: applyCircumstance_alt st1_def st2_def st3_def Let_def)
  note s1 = step_one [of "leyMatch m" st "- 3" "''leyLine''", folded st1_def]
  note s2 = step_one [of "celestialMatch m" st1 "- 2" "''celestialEvent''", folded st2_def]
  note s3 = step_one [of "desperationMatch m" st2 2 "''desperation''", folded st3_def]
  show "gap (applyCircumstance m st) =
     gap st + (if leyMatch m then entry (snd st) ''leyLine'' else 0)
            + (if celestialMatch m then entry (snd st) ''celestialEvent'' else 0)
            + (if desperationMatch m then entry (snd st) ''desperation'' else 0)"
    unfolding eq by (simp add: s1 s2 s3)
  show "fst (applyCircumstance m st) =
     fst st + (if leyMatch m then - 3 else 0) + (if celestialMatch m then - 2 else 0)
            + (if desperationMatch m then 2 else 0)"
    unfolding eq by (simp add: s1 s2 s3)
  show "entry (snd (applyCircumstance m st)) ''leyLine'' = (if leyMatch m then - 3 else entry (snd st) ''leyLine'')"
    unfolding eq by (simp add: s1 s2 s3)
  show "entry (snd (applyCircumstance m st)) ''celestialEvent''
     = (if celestialMatch m then - 2 else entry (snd st) ''celestialEvent'')"
    unfolding eq by (simp add: s1 s2 s3)
  show "entry (snd (applyCircumstance m st)) ''desperation''
     = (if desperationMatch m then 2 else entry (snd st) ''desperation'')"
    unfolding eq by (simp add: s1 s2 s3)
  show "map_of (snd (applyCircumstance m st)) ''leyLine''
     = (if leyMatch m then Some (- 3) else map_of (snd st) ''leyLine'')"
    unfolding eq by (simp add: s1 s2 s3)
  show "map_of (snd (applyCircumstance m st)) ''celestialEvent''
     = (if celestialMatch m then Some (- 2) else map_of (snd st) ''celestialEvent'')"
    unfolding eq by (simp add: s1 s2 s3)
  show "map_of (snd (applyCircumstance m st)) ''desperation''
     = (if desperationMatch m then Some 2 else map_of (snd st) ''desperation'')"
    unfolding eq by (simp add: s1 s2 s3)
qed

lemma matches_step:
  "matches ''ley line'' ''magical nexus'' (m # ms)
     = (if leyMatch m then Suc (matches ''ley line'' ''magical nexus'' ms)
        else matches ''ley line'' ''magical nexus'' ms)"
  "matches ''blood moon'' ''eclipse'' (m # ms)
     = (if celestialMatch m then Suc (matches ''blood moon'' ''eclipse'' ms)
        else matches ''blood moon'' ''eclipse'' ms)"
  "matches ''desperation'' ''urgency'' (m # ms)
     = (if desperationMatch m then Suc (matches ''desperation'' ''urgency'' ms)
        else matches ''desperation'' ''urgency'' ms)"
  by (simp_all only: matches_Cons leyMatch_def celestialMatch_def desperationMatch_def)

lemma applyCircumstances_Cons:
  "applyCircumstances (m # ms) st = applyCircumstances ms (applyCircumstance m st)"
  by (simp add: applyCircumstances_def)

lemma applyCircumstances_gap:
  "gap (applyCircumstances ms st) =
     gap st
     + extra (entry (snd st) ''leyLine'') (- 3) (matches ''ley line'' ''magical nexus'' ms)
     + extra (entry (snd st) ''celestialEvent'') (- 2) (matches ''blood moon'' ''eclipse'' ms)
     + extra (entry (snd st) ''desperation'') 2 (matches ''desperation'' ''urgency'' ms)"
proof (induction ms arbitrary: st)
  case Nil
  then show ?case by (simp add: applyCircumstances_def matches_Nil extra_simps)
next
  case (Cons m ms)
  show ?case
    unfolding applyCircumstances_Cons Cons.IH applyCircumstance_step matches_step
    by (simp add: extra_simps)
qed

lemma applyCircumstances_fst:
  "fst (applyCircumstances ms st) =
     fst st - 3 * int (matches ''ley line'' ''magical nexus'' ms)
            - 2 * int (matches ''blood moon'' ''eclipse'' ms)
            + 2 * int (matches ''desperation'' ''urgency'' ms)"
proof (induction ms arbitrary: st)
  case Nil
  then show ?case by (simp add: applyCircumstances_def matches_Nil)
next
  case (Cons m ms)
  show ?case
    unfolding applyCircumstances_Cons Cons.IH applyCircumstance_step matches_step
    by simp
qed

lemma applyCircumstances_map_of:
  "map_of (snd (applyCircumstances ms st)) ''leyLine''
     = (if 0 < matches ''ley line'' ''magical nexus'' ms then Some (- 3) else map_of (snd st) ''leyLine'')"
  "map_of (snd (applyCircumstances ms st)) ''celestialEvent''
     = (if 0 < matches ''blood moon'' ''eclipse'' ms then Some (- 2) else map_of (snd st) ''celestialEvent'')"
  "map_of (snd (applyCircumstances ms st)) ''desperation''
     = (if 0 < matches ''desperation'' ''urgency'' ms then Some 2 else map_of (snd st) ''desperation'')"
proof (induction ms arbitrary: st)
  case Nil
  { case 1 show ?case by (simp add: applyCircumstances_def matches_Nil) }
  { case 2 show ?case by (simp add: applyCircumstances_def matches_Nil) }
  { case 3 show ?case by (simp add: applyCircumstances_def matches_Nil) }
next
  case (Cons m ms)
  { case 1 show ?case
      unfolding applyCircumstances_Cons Cons.IH applyCircumstance_step matches_step by simp }
  { case 2 show ?case
      unfolding applyCircumstances_Cons Cons.IH applyCircumstance_step matches_step by simp }
  { case 3 show ?case
      unfolding applyCircumstances_Cons Cons.IH applyCircumstance_step matches_step by simp }
qed

lemma keys_assign: "fst ` set (assign k v al) = insert k (fst ` set al)"
proof (induction al)
  case Nil
  show ?case by simp
next
  case (Cons a al)
  obtain k' v' where a: "a = (k', v')" by (cases a)
  show ?case
  proof (cases "k' = k")
    case True
    then show ?thesis by (simp add: a)
  next
    case False
    then show ?thesis using Cons.IH by (simp add: a insert_commute)
  qed
qed

lemma entry_fresh: "k \<notin> fst ` set al \<Longrightarrow> entry al k = 0"
proof -
  assume "k \<notin> fst ` set al"
  then have "map_of al k = None" by (simp add: map_of_eq_None_iff)
  then show ?thesis by (simp add: entry_def)
qed

lemma gap_assign_fresh:
  "k \<notin> fst ` set (snd st) \<Longrightarrow> gap (fst st + v, assign k v (snd st)) = gap st"
  using gap_assign [of "fst st" v k "snd st"] by (simp add: entry_fresh)

lemma gap_assign_fresh_minus:
  "k \<notin> fst ` set (snd st) \<Longrightarrow> gap (fst st - v, assign k (- v) (snd st)) = gap st"
  using gap_assign_fresh [of k st "- v"] by simp

lemma calculateDc_split:
  "calculateDc args known = applyCircumstances (modifiersOf args) (beforeCircumstances args known)"
  by (cases "circumstanceModifiers args")
     (simp_all add: calculateDc_def beforeCircumstances_def modifiersOf_def Let_def
        applyCircumstances_def)

lemma beforeCircumstances_props:
  "gap (beforeCircumstances args known) = 0
   \<and> fst ` set (snd (beforeCircumstances args known))
       \<subseteq> {''base'', ''spellLevel'', ''inCombat'', ''novelEffect'', ''relatedSpell'', ''materialReduction''}"
proof -
  define hasRelated where "hasRelated \<longleftrightarrow>
     (\<exists>spell \<in> set known.
        includes_str (toLowerCase spell) (schoolName (school args))
        \<or> includes_str (toLowerCase spell) (effectTypeName (effectType args)))"
  define st0 where "st0 = (10 + estimatedLevel args * 2,
                           [(''base'', 10 :: int), (''spellLevel'', estimatedLevel args * 2)])"
  define st1 where "st1 = (case encounterId args of
                   None \<Rightarrow> st0
                 | Some e \<Rightarrow> if e = [] then st0 else (fst st0 + 2, assign ''inCombat'' 2 (snd st0)))"
  define st2 where "st2 = (if \<not> hasRelated then (fst st1 + 3, assign ''novelEffect'' 3 (snd st1))
                 else (fst st1 - 2, assign ''relatedSpell'' (- 2) (snd st1)))"
  define st3 where "st3 = (case materialValue args of
                   None \<Rightarrow> st2
                 | Some mv \<Rightarrow>
                     if mv = 0 then st2
                     else (fst st2 - min 5 (mv div 100),
                           assign ''materialReduction'' (- min 5 (mv div 100)) (snd st2)))"
  have eq: "beforeCircumstances args known = st3"
    unfolding beforeCircumstances_def calculateDc_def Let_def st3_def st2_def st1_def st0_def
      hasRelated_def
    by (simp split del: if_split cong: if_cong option.case_cong)
  have k0: "fst ` set (snd st0) = {''base'', ''spellLevel''}" by (auto simp: st0_def)
  have g0: "gap st0 = 0" by (simp add: st0_def gap_def breakdownSum_def)
  have k1: "fst ` set (snd st1) \<subseteq> {''base'', ''spellLevel'', ''inCombat''}"
    using k0 by (auto simp: st1_def keys_assign split: option.splits)
  have f0: "''inCombat'' \<notin> fst ` set (snd st0)" unfolding k0 by simp
  have g1: "gap st1 = 0"
    using g0 gap_assign_fresh [OF f0, of 2] by (simp add: st1_def split: option.splits)
  have k2: "fst ` set (snd st2) \<subseteq> {''base'', ''spellLevel'', ''inCombat'', ''novelEffect'', ''relatedSpell''}"
    using k1 by (auto simp: st2_def keys_assign)
  have f1: "''novelEffect'' \<notin> fst ` set (snd st1)" "''relatedSpell'' \<notin> fst ` set (snd st1)"
    using k1 by auto
  have g2: "gap st2 = 0"
    using g1 gap_assign_fresh [OF f1(1), of 3] gap_assign_fresh_minus [OF f1(2), of 2]
    by (simp add: st2_def)
  have k3: "fst ` set (snd st3)
       \<subseteq> {''base'', ''spellLevel'', ''inCombat'', ''novelEffect'', ''relatedSpell'', ''materialReduction''}"
    using k2 by (auto simp: st3_def keys_assign split: option.splits)
  have f2: "''materialReduction'' \<notin> fst ` set (snd st2)" using k2 by auto
  have g3: "gap st3 = 0"
    using g2 gap_assign_fresh_minus [OF f2] by (simp add: st3_def split: option.splits)
  show ?thesis unfolding eq using g3 k3 by simp
qed

lemma extra_zero: "extra 0 v n = v * int (n - 1)"
  by (cases n) (simp_all add: extra_def)

lemma map_fst_assign:
  "map fst (assign k v al) = (if k \<in> fst ` set al then map fst al else map fst al @ [k])"
  by (induction al) (auto simp: rev_image_eqI)

lemma distinct_assign: "distinct (map fst al) \<Longrightarrow> distinct (map fst (assign k v al))"
  by (simp add: map_fst_assign)

lemma applyCircumstance_distinct:
  "distinct (map fst (snd st)) \<Longrightarrow> distinct (map fst (snd (applyCircumstance m st)))"
  by (simp add: applyCircumstance_alt Let_def distinct_assign)

lemma applyCircumstances_distinct:
  "distinct (map fst (snd st)) \<Longrightarrow> distinct (map fst (snd (applyCircumstances ms st)))"
  by (induction ms arbitrary: st) (simp_all add: applyCircumstances_def applyCircumstance_distinct)

lemma beforeCircumstances_distinct:
  "distinct (map fst (snd (beforeCircumstances args known)))"
  by (simp add: beforeCircumstances_def calculateDc_def Let_def distinct_assign
      split: option.splits)

lemma calculateDc_gap:
  "fst (calculateDc args known) =
     breakdownSum (snd (calculateDc args known))
     - 3 * int (matches ''ley line'' ''magical nexus'' (modifiersOf args) - 1)
     - 2 * int (matches ''blood moon'' ''eclipse'' (modifiersOf args) - 1)
     + 2 * int (matches ''desperation'' ''urgency'' (modifiersOf args) - 1)"
proof -
  let ?b = "beforeCircumstances args known"
  have keys: "fst ` set (snd ?b)
       \<subseteq> {''base'', ''spellLevel'', ''inCombat'', ''novelEffect'', ''relatedSpell'', ''materialReduction''}"
    and g: "gap ?b = 0"
    using beforeCircumstances_props [of args known] by simp_all
  have fresh: "''leyLine'' \<notin> fst ` set (snd ?b)" "''celestialEvent'' \<notin> fst ` set (snd ?b)"
    "''desperation'' \<notin> fst ` set (snd ?b)"
    using keys by auto
  have e: "entry (snd ?b) ''leyLine'' = 0" "entry (snd ?b) ''celestialEvent'' = 0"
    "entry (snd ?b) ''desperation'' = 0"
    using fresh by (simp_all add: entry_fresh)
  have "gap (calculateDc args known) =
      - 3 * int (matches ''ley line'' ''magical nexus'' (modifiersOf args) - 1)
      - 2 * int (matches ''blood moon'' ''eclipse'' (modifiersOf args) - 1)
      + 2 * int (matches ''desperation'' ''urgency'' (modifiersOf args) - 1)"
    unfolding calculateDc_split applyCircumstances_gap g e extra_zero by simp
  then show ?thesis by (simp add: gap_def)
qed

lemma calculateDc_entries:
  "map_of (snd (calculateDc args known)) ''leyLine''
     = (if 0 < matches ''ley line'' ''magical nexus'' (modifiersOf args) then Some (- 3) else None)"
  "map_of (snd (calculateDc args known)) ''celestialEvent''
     = (if 0 < matches ''blood moon'' ''eclipse'' (modifiersOf args) then Some (- 2) else None)"
  "map_of (snd (calculateDc args known)) ''desperation''
     = (if 0 < matches ''desperation'' ''urgency'' (modifiersOf args) then Some 2 else None)"
proof -
  let ?b = "beforeCircumstances args known"
  have keys: "fst ` set (snd ?b)
       \<subseteq> {''base'', ''spellLevel'', ''inCombat'', ''novelEffect'', ''relatedSpell'', ''materialReduction''}"
    using beforeCircumstances_props [of args known] by simp
  have fresh: "''leyLine'' \<notin> fst ` set (snd ?b)" "''celestialEvent'' \<notin> fst ` set (snd ?b)"
    "''desperation'' \<notin> fst ` set (snd ?b)"
    using keys by auto
  then have n: "map_of (snd ?b) ''leyLine'' = None" "map_of (snd ?b) ''celestialEvent'' = None"
    "map_of (snd ?b) ''desperation'' = None"
    by (simp_all add: map_of_eq_None_iff)
  show "map_of (snd (calculateDc args known)) ''leyLine''
     = (if 0 < matches ''ley line'' ''magical nexus'' (modifiersOf args) then Some (- 3) else None)"
    unfolding calculateDc_split applyCircumstances_map_of n by (rule refl)
  show "map_of (snd (calculateDc args known)) ''celestialEvent''
     = (if 0 < matches ''blood moon'' ''eclipse'' (modifiersOf args) then Some (- 2) else None)"
    unfolding calculateDc_split applyCircumstances_map_of n by (rule refl)
  show "map_of (snd (calculateDc args known)) ''desperation''
     = (if 0 < matches ''desperation'' ''urgency'' (modifiersOf args) then Some 2 else None)"
    unfolding calculateDc_split applyCircumstances_map_of n by (rule refl)
qed

lemma calculateDc_distinct: "distinct (map fst (snd (calculateDc args known)))"
  unfolding calculateDc_split
  by (rule applyCircumstances_distinct) (rule beforeCircumstances_distinct)

lemma handleSynthesize_dc:
  assumes "handleSynthesize table surgeNo rollDice rng chars args = Inr res"
  shows "difficulty res = fst (calculateDc args (snd (snd (casterProfile (findById chars (casterId args))))))
         \<and> dcBreakdown res = snd (calculateDc args (snd (snd (casterProfile (findById chars (casterId args))))))"
  using assms
  by (auto simp: handleSynthesize_def Let_def
        split: prod.splits option.splits sum.splits if_splits)

text \<open>
  The difficulty against its breakdown, for every input. Every step of the calculation
  changes the difficulty and records the change in dcBreakdown, so the handler keeps the
  difficulty equal to the sum of the breakdown, except in the loop over the circumstance
  strings: there the adjustment of a keyword group (-3 ley line or magical nexus, -2 blood
  moon or eclipse, +2 desperation or urgency) is applied to the difficulty once per matching
  string, while the assignment to the breakdown leaves a single entry per group (its keys are
  distinct). The difficulty is the sum of the breakdown changed by the adjustment of a group
  once for every matching string beyond the first, and equals the sum when no group is
  matched by more than one string.
\<close>

lemma handleSynthesize_dc_gap:
  assumes "handleSynthesize table surgeNo rollDice rng chars args = Inr res"
  shows
    "difficulty res =
       breakdownSum (dcBreakdown res)
       - 3 * int (matches ''ley line'' ''magical nexus'' (modifiersOf args) - 1)
       - 2 * int (matches ''blood moon'' ''eclipse'' (modifiersOf args) - 1)
       + 2 * int (matches ''desperation'' ''urgency'' (modifiersOf args) - 1)
     \<and> (matches ''ley line'' ''magical nexus'' (modifiersOf args) \<le> 1
          \<and> matches ''blood moon'' ''eclipse'' (modifiersOf args) \<le> 1
          \<and> matches ''desperation'' ''urgency'' (modifiersOf args) \<le> 1
          \<longrightarrow> difficulty res = breakdownSum (dcBreakdown res))
     \<and> difficulty res =
         fst (beforeCircumstances args (snd (snd (casterProfile (findById chars (casterId args))))))
         - 3 * int (matches ''ley line'' ''magical nexus'' (modifiersOf args))
         - 2 * int (matches ''blood moon'' ''eclipse'' (modifiersOf args))
         + 2 * int (matches ''desperation'' ''urgency'' (modifiersOf args))
     \<and> distinct (map fst (dcBreakdown res))
     \<and> map_of (dcBreakdown res) ''leyLine''
         = (if 0 < matches ''ley line'' ''magical nexus'' (modifiersOf args) then Some (- 3) else None)
     \<and> map_of (dcBreakdown res) ''celestialEvent''
         = (if 0 < matches ''blood moon'' ''eclipse'' (modifiersOf args) then Some (- 2) else None)
     \<and> map_of (dcBreakdown res) ''desperation''
         = (if 0 < matches ''desperation'' ''urgency'' (modifiersOf args) then Some 2 else None)"
proof -
  let ?known = "snd (snd (casterProfile (findById chars (casterId args))))"
  have d: "difficulty res = fst (calculateDc args ?known)"
    and b: "dcBreakdown res = snd (calculateDc args ?known)"
    using handleSynthesize_dc [OF assms] by simp_all
  have g: "difficulty res =
       breakdownSum (dcBreakdown res)
       - 3 * int (matches ''ley line'' ''magical nexus'' (modifiersOf args) - 1)
       - 2 * int (matches ''blood moon'' ''eclipse'' (modifiersOf args) - 1)
       + 2 * int (matches ''desperation'' ''urgency'' (modifiersOf args) - 1)"
    unfolding d b by (rule calculateDc_gap)
  have f: "difficulty res =
         fst (beforeCircumstances args ?known)
         - 3 * int (matches ''ley line'' ''magical nexus'' (modifiersOf args))
         - 2 * int (matches ''blood moon'' ''eclipse'' (modifiersOf args))
         + 2 * int (matches ''desperation'' ''urgency'' (modifiersOf args))"
    unfolding d calculateDc_split by (rule applyCircumstances_fst)
  have dist: "distinct (map fst (dcBreakdown res))"
    unfolding b by (rule calculateDc_distinct)
  have e: "map_of (dcBreakdown res) ''leyLine''
         = (if 0 < matches ''ley line'' ''magical nexus'' (modifiersOf args) then Some (- 3) else None)"
    "map_of (dcBreakdown res) ''celestialEvent''
         = (if 0 < matches ''blood moon'' ''eclipse'' (modifiersOf args) then Some (- 2) else None)"
    "map_of (dcBreakdown res) ''desperation''
         = (if 0 < matches ''desperation'' ''urgency'' (modifiersOf args) then Some 2 else None)"
    unfolding b by (rule calculateDc_entries)+
  have one: "matches ''ley line'' ''magical nexus'' (modifiersOf args) \<le> 1
          \<and> matches ''blood moon'' ''eclipse'' (modifiersOf args) \<le> 1
          \<and> matches ''desperation'' ''urgency'' (modifiersOf args) \<le> 1
          \<longrightarrow> difficulty res = breakdownSum (dcBreakdown res)"
    using g by simp
  show ?thesis using g one f dist e by blast
qed

lemma ley_twice_dc:
  "calculateDc ley_twice_args [''Evocation Bolt'']
     = (4, [(''base'', 10), (''spellLevel'', 2), (''relatedSpell'', - 2), (''leyLine'', - 3)])"
  by (simp add: calculateDc_def ley_twice_args_def fizzle_args_def toLowerCase_def lowerChar_def
      applyCircumstances_def applyCircumstance_def)

lemma ley_once_dc:
  "calculateDc ley_once_args [''Evocation Bolt'']
     = (9, [(''base'', 10), (''spellLevel'', 2), (''relatedSpell'', - 2), (''leyLine'', - 3),
            (''desperation'', 2)])"
  by (simp add: calculateDc_def ley_once_args_def fizzle_args_def toLowerCase_def lowerChar_def
      applyCircumstances_def applyCircumstance_def)

text \<open>
  Claim C10, evaluated at the attempt of the mage with the circumstance strings
  'on a ley line' and 'Ley Line nearby': the difficulty is 10 + 2 - 2 - 3 - 3 = 4, and the
  breakdown holds base 10, spellLevel 2, relatedSpell -2 and one leyLine -3, which sum to 7.
  The reported difficulty is not the sum of the values of its breakdown.
\<close>

theorem synthesize_dc_differs_from_breakdown:
  "map_sum id (\<lambda>r. (difficulty r, breakdownSum (dcBreakdown r), dcBreakdown r))
     (handleSynthesize ([] :: unit list) (\<lambda>ws. 0) (\<lambda>notation. Inr 0) (\<lambda>k. 1 / 50)
        [''mage'' \<mapsto> mage] ley_twice_args)
     = Inr (4, 7, [(''base'', 10), (''spellLevel'', 2), (''relatedSpell'', - 2), (''leyLine'', - 3)])"
proof -
  have p: "casterProfile (findById [''mage'' \<mapsto> mage] ''mage'') = (5, ''Mira'', [''Evocation Bolt''])"
    by (simp add: findById_def mage_profile)
  have c: "classify 1 6 4 = Success"
    by (simp add: classify_def)
  have f: "casterId ley_twice_args = ''mage''" "effectDice ley_twice_args = None"
    "proposedName ley_twice_args = Some ''Spark''"
    by (simp_all add: ley_twice_args_def fizzle_args_def)
  show ?thesis
    by (simp add: handleSynthesize_def p f ley_twice_dc d20_low c breakdownSum_def)
qed

text \<open>
  With one string that names a ley line and one that names desperation, the difficulty 9 is
  the sum of the breakdown.
\<close>

lemma synthesize_dc_single_match:
  "map_sum id (\<lambda>r. (difficulty r, breakdownSum (dcBreakdown r)))
     (handleSynthesize ([] :: unit list) (\<lambda>ws. 0) (\<lambda>notation. Inr 0) (\<lambda>k. 1 / 50)
        [''mage'' \<mapsto> mage] ley_once_args)
     = Inr (9, 9)
   \<and> matches ''ley line'' ''magical nexus'' (modifiersOf ley_once_args) = 1
   \<and> matches ''blood moon'' ''eclipse'' (modifiersOf ley_once_args) = 0
   \<and> matches ''desperation'' ''urgency'' (modifiersOf ley_once_args) = 1"
proof -
  let ?run = "handleSynthesize ([] :: unit list) (\<lambda>ws. 0) (\<lambda>notation. Inr 0) (\<lambda>k. 1 / 50)
                [''mage'' \<mapsto> mage] ley_once_args"
  have p: "casterProfile (findById [''mage'' \<mapsto> mage] ''mage'') = (5, ''Mira'', [''Evocation Bolt''])"
    by (simp add: findById_def mage_profile)
  have c: "classify 1 6 9 = Fizzle"
    by (simp add: classify_def)
  have f: "casterId ley_once_args = ''mage''" "effectDice ley_once_args = None"
    "proposedName ley_once_args = Some ''Spark''"
    by (simp_all add: ley_once_args_def fizzle_args_def)
  have ev: "map_sum id difficulty ?run = Inr 9"
    by (simp add: handleSynthesize_def p f ley_once_dc d20_low c)
  then obtain res where r: "?run = Inr res"
    by (cases ?run) simp_all
  have m: "matches ''ley line'' ''magical nexus'' (modifiersOf ley_once_args) = 1"
    "matches ''blood moon'' ''eclipse'' (modifiersOf ley_once_args) = 0"
    "matches ''desperation'' ''urgency'' (modifiersOf ley_once_args) = 1"
    by (simp_all add: matches_def modifiersOf_def ley_once_args_def toLowerCase_def lowerChar_def)
  have "difficulty res = breakdownSum (dcBreakdown res)"
    using handleSynthesize_dc_gap [OF r] m by simp
  moreover have "difficulty res = 9" using ev r by simp
  ultimately show ?thesis using r m by simp
qed

end
